theory Spec2Isabelle
  imports Complex_Main
begin

chapter \<open>Model\<close>

section \<open>Conventions of the embedding\<close>

text \<open>
  The trainer \<^verbatim>\<open>examples/simple_trainer.py\<close> orchestrates library calls on
  tensors of floating-point numbers. The embedding is shallow and follows the source
  function by function:
  \<^item> scalars and tensor entries are real numbers (the arithmetic of the source is read
    over the reals; rounding is outside the model);
  \<^item> where only the shape of a tensor matters (parameter groups, optimizer state) a tensor
    is its shape, a list of dimensions whose head is the leading dimension;
  \<^item> every \<^verbatim>\<open>raise\<close>, failed \<^verbatim>\<open>assert\<close> and library exception the
    source can reach is a value \<open>Inl e\<close> of a sum type; the text of a library message
    is kept up to the sizes and values the library prints into it;
  \<^item> values computed by collaborators that are not part of the trainer (the rasterizer,
    the loss modules, the illumination network, the colour conversions, the compression
    method) are arguments of the model, never fixed by it.
\<close>

datatype py_error =
    ValueError string
  | IndexError string
  | KeyError string
  | ZeroDivisionError string
  | AssertionError string
  | AttributeError string
  | RuntimeError string

type_synonym shape = "nat list"

text \<open>A name between apostrophes, as Python prints it in a message.\<close>

definition quoted :: "string \<Rightarrow> string" where
  "quoted s = CHR 0x27 # s @ [CHR 0x27]"

text \<open>
  The results of a sequence of computations, in order: the first exception ends the
  sequence.
\<close>

fun collect :: "(py_error + 'a) list \<Rightarrow> py_error + 'a list" where
  "collect [] = Inr []"
| "collect (Inl e # rs) = Inl e"
| "collect (Inr x # rs) = (case collect rs of Inl e \<Rightarrow> Inl e | Inr xs \<Rightarrow> Inr (x # xs))"

section \<open>\<^verbatim>\<open>create_splats_with_optimizers\<close>\<close>

text \<open>
  \<open>strided_rows n start step\<close> is the number of rows of \<^verbatim>\<open>t[start::step]\<close>
  for a tensor \<^verbatim>\<open>t\<close> of \<open>n\<close> rows and \<open>0 < step\<close>, that is
  \<^verbatim>\<open>len(range(start, n, step))\<close>.
\<close>

definition strided_rows :: "nat \<Rightarrow> nat \<Rightarrow> nat \<Rightarrow> nat" where
  "strided_rows n start step = (if start < n then (n - start + step - 1) div step else 0)"

text \<open>
  The parser contributes the point cloud: \<^verbatim>\<open>parser.points\<close> and
  \<^verbatim>\<open>parser.points_rgb\<close> are the two columns of one table and have
  \<open>points_rows\<close> rows each. The arguments \<^verbatim>\<open>init_extent\<close>,
  \<^verbatim>\<open>init_opacity\<close>, \<^verbatim>\<open>init_scale\<close> and \<^verbatim>\<open>device\<close> of the function
  decide entries and placement of the tensors, not their shapes, and are left out. The
  nearest-neighbour search \<^verbatim>\<open>knn\<close> of line 99 is a collaborator and is taken to
  return.
\<close>

record parser =
  points_rows :: nat
  parser_scene_scale :: real

datatype optimizer_class = SparseAdam | SelectiveAdam | AdamW

text \<open>The arguments one optimizer is constructed with (one parameter group each).\<close>

record optimizer =
  opt_class :: optimizer_class
  opt_name :: string
  opt_lr :: real
  opt_eps :: real
  opt_betas :: "real \<times> real"

record splat_args =
  arg_parser :: parser
  init_type :: string
  init_num_pts :: nat
  means_lr :: real
  scales_lr :: real
  opacities_lr :: real
  quats_lr :: real
  sh0_lr :: real
  shN_lr :: real
  scene_scale :: real
  sh_degree :: nat
  sparse_grad :: bool
  visible_adam :: bool
  batch_size :: int
  feature_dim :: "nat option"
  world_rank :: nat
  world_size :: nat

text \<open>
  Lines 90--97: the two initialisations and the rejected ones. The result is the number
  of rows of \<^verbatim>\<open>points\<close> (and of \<^verbatim>\<open>rgbs\<close>) before sharding.
\<close>

definition init_points :: "splat_args \<Rightarrow> py_error + nat" where
  "init_points a =
     (if init_type a = ''sfm'' then Inr (points_rows (arg_parser a))
      else if init_type a = ''random'' then Inr (init_num_pts a)
      else Inl (ValueError ''Please specify a correct init_type: sfm or random''))"

text \<open>
  Lines 111--116: the four geometry groups, each \<open>(name, shape, learning rate)\<close>, for
  \<open>N\<close> Gaussians.
\<close>

definition geometry_params :: "splat_args \<Rightarrow> nat \<Rightarrow> (string \<times> shape \<times> real) list" where
  "geometry_params a N =
     [(''means'', [N, 3], means_lr a * scene_scale a),
      (''scales'', [N, 3], scales_lr a),
      (''quats'', [N, 4], quats_lr a),
      (''opacities'', [N], opacities_lr a)]"

text \<open>
  Lines 118--138. Without a feature dimension the colours are the spherical-harmonics
  tensor \<open>[N, (sh_degree + 1)\<^sup>2, 3]\<close>, split into \<open>sh0\<close> and \<open>shN\<close>, and
  \<open>adjust_k\<close>, \<open>adjust_b\<close> take the shape of \<^verbatim>\<open>colors[:, :1, :]\<close>. With a
  feature dimension \<^verbatim>\<open>colors = torch.logit(rgbs)\<close> has two dimensions, and the
  three-index slice \<^verbatim>\<open>colors[:, :1, :]\<close> of line 131 raises. The two adjustment
  groups are appended on every path that reaches line 137: no argument of the function
  gates them.
\<close>

definition colour_params :: "splat_args \<Rightarrow> nat \<Rightarrow> py_error + (string \<times> shape \<times> real) list" where
  "colour_params a N =
     (case feature_dim a of
        None \<Rightarrow>
          Inr [(''sh0'', [N, 1, 3], sh0_lr a),
               (''shN'', [N, (sh_degree a + 1) ^ 2 - 1, 3], shN_lr a),
               (''adjust_k'', [N, 1, 3], sh0_lr a),
               (''adjust_b'', [N, 1, 3], sh0_lr a)]
      | Some d \<Rightarrow> Inl (IndexError ''too many indices for tensor of dimension 2''))"

text \<open>Lines 144--149.\<close>

definition optimizer_class_of :: "splat_args \<Rightarrow> optimizer_class" where
  "optimizer_class_of a =
     (if sparse_grad a then SparseAdam
      else if visible_adam a then SelectiveAdam
      else AdamW)"

text \<open>
  Lines 151--158, one entry of the comprehension. \<^verbatim>\<open>math.sqrt\<close> raises on a
  negative argument and the division \<^verbatim>\<open>1e-15 / math.sqrt(BS)\<close> raises on
  \<open>BS = 0\<close>; the constructors of the three optimizer classes reject a beta outside
  \<open>[0, 1)\<close> (the library's message ends with the value of the beta). All of this is
  decided by \<open>BS\<close> alone, so it is checked once in \<open>make_optimizers\<close>.
\<close>

definition make_optimizer :: "optimizer_class \<Rightarrow> int \<Rightarrow> string \<times> shape \<times> real \<Rightarrow> string \<times> optimizer" where
  "make_optimizer cls BS p =
     (case p of (name, _, lr) \<Rightarrow>
        (name,
         \<lparr>opt_class = cls,
          opt_name = name,
          opt_lr = lr * sqrt (real_of_int BS),
          opt_eps = (1 / 10 ^ 15) / sqrt (real_of_int BS),
          opt_betas = (1 - real_of_int BS * (1 - 0.9), 1 - real_of_int BS * (1 - 0.999))\<rparr>))"

definition make_optimizers ::
  "optimizer_class \<Rightarrow> int \<Rightarrow> (string \<times> shape \<times> real) list \<Rightarrow> py_error + (string \<times> optimizer) list" where
  "make_optimizers cls BS params =
     (if params = [] then Inr []
      else if BS < 0 then Inl (ValueError ''math domain error'')
      else if BS = 0 then Inl (ZeroDivisionError ''float division by zero'')
      else if \<not> (0 \<le> 1 - real_of_int BS * (1 - 0.9) \<and> 1 - real_of_int BS * (1 - 0.9) < 1)
      then Inl (ValueError ''Invalid beta parameter at index 0'')
      else if \<not> (0 \<le> 1 - real_of_int BS * (1 - 0.999) \<and> 1 - real_of_int BS * (1 - 0.999) < 1)
      then Inl (ValueError ''Invalid beta parameter at index 1'')
      else Inr (map (make_optimizer cls BS) params))"

text \<open>
  The whole function. The sharding \<^verbatim>\<open>points[world_rank::world_size]\<close> of lines
  103--105 raises on a zero step. The scene state is the list of the groups with their
  shapes, and the optimizers the list of the groups with their optimizer, both in the order
  of \<^verbatim>\<open>params\<close>; a group is read by its name.
\<close>

definition create_splats_with_optimizers ::
  "splat_args \<Rightarrow> py_error + ((string \<times> shape) list \<times> (string \<times> optimizer) list)" where
  "create_splats_with_optimizers a =
     (case init_points a of
        Inl e \<Rightarrow> Inl e
      | Inr P \<Rightarrow>
          if world_size a = 0 then Inl (ValueError ''step must be greater than zero'')
          else
            let N = strided_rows P (world_rank a) (world_size a) in
            (case colour_params a N of
               Inl e \<Rightarrow> Inl e
             | Inr cs \<Rightarrow>
                 let params = geometry_params a N @ cs;
                     splats = map (\<lambda>(n, v, _). (n, v)) params;
                     BS = batch_size a * int (world_size a)
                 in (case make_optimizers (optimizer_class_of a) BS params of
                       Inl e \<Rightarrow> Inl e
                     | Inr optimizers \<Rightarrow> Inr (splats, optimizers))))"

text \<open>
  A call of the function used to run the theorems below: ten points, sharded over two
  workers with a batch of two images each.
\<close>

definition example_args :: splat_args where
  "example_args =
     \<lparr>arg_parser = \<lparr>points_rows = 10, parser_scene_scale = 1\<rparr>, init_type = ''sfm'', init_num_pts = 100000,
      means_lr = 1, scales_lr = 2, opacities_lr = 3, quats_lr = 4, sh0_lr = 5, shN_lr = 6,
      scene_scale = 1, sh_degree = 3, sparse_grad = False, visible_adam = False,
      batch_size = 2, feature_dim = None, world_rank = 0, world_size = 2\<rparr>"

section \<open>Tensors of an image batch\<close>

text \<open>
  A tensor of layout \<open>[B, C, H, W]\<close> is the list of its positions \<open>(b, h, w)\<close>, each
  the list of its \<open>C\<close> channel values; \<^verbatim>\<open>permute\<close> changes the layout only and is
  not visible here. Pixel intensities are non-negative (the callers pass
  \<^verbatim>\<open>image / 255.0\<close>); on a non-positive argument \<^verbatim>\<open>torch.log\<close> gives
  \<open>nan\<close> or \<open>-inf\<close>, which the reals do not have, so the theorems below assume
  non-negative pixels.
\<close>

type_synonym image = "real list list"

definition pointwise :: "(real \<Rightarrow> real) \<Rightarrow> image \<Rightarrow> image" where
  "pointwise f t = map (map f) t"

text \<open>The entrywise combination of two tensors of one shape.\<close>

definition pointwise2 :: "(real \<Rightarrow> real \<Rightarrow> real) \<Rightarrow> image \<Rightarrow> image \<Rightarrow> image" where
  "pointwise2 f s t = map2 (map2 f) s t"

definition same_shape :: "image \<Rightarrow> image \<Rightarrow> bool" where
  "same_shape s t = (map length s = map length t)"

text \<open>
  A binary operation of \<^verbatim>\<open>torch\<close> broadcasts: along one dimension the two sizes
  agree, or one of them is \<open>1\<close> and its only entry is used throughout; any other pair of
  sizes is a \<^verbatim>\<open>RuntimeError\<close>. \<open>tensor_op\<close> broadcasts the channels at every
  position, and the positions themselves. Positions are flattened here, so of the
  broadcasts over batch, height and width the one of a single position is represented.
\<close>

definition broadcast_dim :: "('a \<Rightarrow> 'b \<Rightarrow> py_error + 'c) \<Rightarrow> 'a list \<Rightarrow> 'b list \<Rightarrow> py_error + 'c list" where
  "broadcast_dim g xs ys =
     (if length xs = length ys then collect (map2 g xs ys)
      else if length xs = 1 then collect (map (g (hd xs)) ys)
      else if length ys = 1 then collect (map (\<lambda>x. g x (hd ys)) xs)
      else Inl (RuntimeError ''The size of tensor a must match the size of tensor b''))"

definition tensor_op :: "(real \<Rightarrow> real \<Rightarrow> real) \<Rightarrow> image \<Rightarrow> image \<Rightarrow> py_error + image" where
  "tensor_op f s t = broadcast_dim (broadcast_dim (\<lambda>a b. Inr (f a b))) s t"

text \<open>\<^verbatim>\<open>t[:, lo:hi, :, :]\<close>: a channel slice never raises.\<close>

definition channels :: "nat \<Rightarrow> nat \<Rightarrow> image \<Rightarrow> image" where
  "channels lo hi t = map (\<lambda>p. take (hi - lo) (drop lo p)) t"

text \<open>
  \<^verbatim>\<open>torch.cat([a, b, c], dim=1)\<close>: the three tensors have the same positions.
\<close>

definition cat3 :: "image \<Rightarrow> image \<Rightarrow> image \<Rightarrow> py_error + image" where
  "cat3 a b c =
     (if length a = length b \<and> length b = length c
      then Inr (map (\<lambda>(x, y, z). x @ y @ z) (zip a (zip b c)))
      else Inl (RuntimeError ''Sizes of tensors must match except in dimension 1''))"

text \<open>
  A colour conversion of \<^verbatim>\<open>kornia.color\<close> works pixel by pixel on the three
  channels and rejects a tensor that does not have three.
\<close>

definition kornia_color :: "(real list \<Rightarrow> real list) \<Rightarrow> image \<Rightarrow> py_error + image" where
  "kornia_color convert t =
     (if list_all (\<lambda>p. length p = 3) t then Inr (map convert t)
      else Inl (ValueError ''Input size must have a shape of (*, 3, H, W)''))"

datatype dtype = Float16 | BFloat16 | Float32 | Float64

text \<open>\<^verbatim>\<open>torch.finfo(dtype).eps\<close>.\<close>

fun finfo_eps :: "dtype \<Rightarrow> real" where
  "finfo_eps Float16 = 1 / 2 ^ 10"
| "finfo_eps BFloat16 = 1 / 2 ^ 7"
| "finfo_eps Float32 = 1 / 2 ^ 23"
| "finfo_eps Float64 = 1 / 2 ^ 52"

text \<open>\<^verbatim>\<open>torch.clamp(x, min=lo)\<close> and \<^verbatim>\<open>torch.clamp(x, lo, hi)\<close> on one entry.\<close>

definition clamp_min :: "real \<Rightarrow> real \<Rightarrow> real" where
  "clamp_min lo x = max lo x"

definition clamp :: "real \<Rightarrow> real \<Rightarrow> real \<Rightarrow> real" where
  "clamp lo hi x = min hi (max lo x)"

text \<open>\<^verbatim>\<open>torch.mean\<close> over all entries, \<^verbatim>\<open>torch.sigmoid\<close>, \<^verbatim>\<open>torch.relu\<close>.\<close>

definition mean :: "image \<Rightarrow> real" where
  "mean t = sum_list (concat t) / real (length (concat t))"

definition sigmoid :: "real \<Rightarrow> real" where
  "sigmoid x = 1 / (1 + exp (- x))"

definition relu :: "real \<Rightarrow> real" where
  "relu x = max 0 x"

section \<open>\<^verbatim>\<open>Runner.get_retinex_output\<close>\<close>

text \<open>
  What the illumination network returns (line 577): the log-illumination map and four
  optional tensors the decomposition passes through unchanged.
\<close>

record 't net_out =
  log_illumination_map :: image
  alpha :: "'t option"
  beta :: "'t option"
  local_exposure :: "'t option"
  weights :: "'t option"

text \<open>
  The collaborators of the decomposition: the embedding table, the network, and the two
  colour conversions of \<^verbatim>\<open>kornia.color\<close> on the three channels of one pixel.
\<close>

record ('id, 'e, 't) retinex_env =
  retinex_embeds :: "'id \<Rightarrow> 'e"
  retinex_net :: "image \<Rightarrow> 'e \<Rightarrow> 't net_out"
  rgb_to_hsv :: "real list \<Rightarrow> real list"
  hsv_to_rgb :: "real list \<Rightarrow> real list"

record 't retinex_output =
  input_image_for_net :: image
  illumination_map :: image
  reflectance_map :: image
  out_alpha :: "'t option"
  out_beta :: "'t option"
  out_local_exposure :: "'t option"
  out_weights :: "'t option"

text \<open>
  Lines 560--610, in the order of the source: the working colour space (the value channel
  of the HSV image, or the RGB image itself), the network on the working image and the
  image's embedding, the illumination floored at \<open>1e-5\<close>, the log-reflectance, the
  reassembly of the colours in HSV mode, and the clamp of the reflectance. In RGB mode
  \<^verbatim>\<open>pixels_hsv\<close> is a placeholder that is not read.
\<close>

definition get_retinex_output ::
  "('id, 'e, 't) retinex_env \<Rightarrow> bool \<Rightarrow> dtype \<Rightarrow> 'id \<Rightarrow> image \<Rightarrow> py_error + 't retinex_output" where
  "get_retinex_output env use_hsv_color_space pixels_dtype images_ids pixels =
     (let epsilon = finfo_eps pixels_dtype in
      case (if use_hsv_color_space then kornia_color (rgb_to_hsv env) pixels else Inr []) of
        Inl e \<Rightarrow> Inl e
      | Inr pixels_hsv \<Rightarrow>
          let input_image = (if use_hsv_color_space then channels 2 3 pixels_hsv else pixels);
              log_input_image = pointwise (\<lambda>x. ln (x + epsilon)) input_image;
              retinex_embedding = retinex_embeds env images_ids;
              out = retinex_net env input_image retinex_embedding;
              illumination =
                pointwise (clamp_min (1 / 10 ^ 5)) (pointwise exp (log_illumination_map out))
          in (case tensor_op (-) log_input_image (log_illumination_map out) of
                Inl e \<Rightarrow> Inl e
              | Inr log_reflectance_target \<Rightarrow>
                  (case (if use_hsv_color_space then
                           (case cat3 (channels 0 1 pixels_hsv) (channels 1 2 pixels_hsv)
                                   (pointwise exp log_reflectance_target) of
                              Inl e \<Rightarrow> Inl e
                            | Inr reflectance_hsv_target \<Rightarrow>
                                kornia_color (hsv_to_rgb env) reflectance_hsv_target)
                         else Inr (pointwise exp log_reflectance_target)) of
                     Inl e \<Rightarrow> Inl e
                   | Inr reflectance \<Rightarrow>
                       Inr \<lparr>input_image_for_net = input_image,
                            illumination_map = illumination,
                            reflectance_map = pointwise (clamp 0 1) reflectance,
                            out_alpha = alpha out,
                            out_beta = beta out,
                            out_local_exposure = local_exposure out,
                            out_weights = weights out\<rparr>)))"

text \<open>
  The working-colour-space representation of an RGB image, as lines 564--573 compute it:
  the value channel of its HSV conversion, or the image itself.
\<close>

definition working_image :: "('id, 'e, 't) retinex_env \<Rightarrow> bool \<Rightarrow> image \<Rightarrow> image" where
  "working_image env use_hsv_color_space pixels =
     (if use_hsv_color_space then channels 2 3 (map (rgb_to_hsv env) pixels) else pixels)"

text \<open>
  What the identity of the decomposition needs of the two conversions in HSV mode: the
  value of a pixel is its largest channel, the saturation of a non-negative pixel is not
  negative, and a colour of non-negative saturation and value is converted back to three
  channels of which the largest is the value.
\<close>

definition hsv_value_laws :: "('id, 'e, 't) retinex_env \<Rightarrow> bool" where
  "hsv_value_laws env \<longleftrightarrow>
     (\<forall>r g b. \<exists>h s. rgb_to_hsv env [r, g, b] = [h, s, max r (max g b)]
                   \<and> (0 \<le> r \<and> 0 \<le> g \<and> 0 \<le> b \<longrightarrow> 0 \<le> s))
   \<and> (\<forall>h s v. 0 \<le> s \<and> 0 \<le> v \<longrightarrow>
          (\<exists>r g b. hsv_to_rgb env [h, s, v] = [r, g, b] \<and> max r (max g b) = v))"

subsection \<open>The colour conversions on one pixel\<close>

text \<open>
  To run the decomposition on a coloured pixel the conversions need values. These are the
  hexcone formulas of \<^verbatim>\<open>kornia.color.rgb_to_hsv\<close> and
  \<^verbatim>\<open>kornia.color.hsv_to_rgb\<close> on the three channels of one pixel: the value is
  the largest channel, the saturation is the spread over the value (with the library's
  guard \<open>1e-8\<close> in the denominator) and the hue is an angle in radians.
\<close>

definition hexcone_rgb_to_hsv :: "real list \<Rightarrow> real list" where
  "hexcone_rgb_to_hsv p =
     (case p of
        [r, g, b] \<Rightarrow>
          let max_rgb = max r (max g b);
              min_rgb = min r (min g b);
              deltac = max_rgb - min_rgb;
              v = max_rgb;
              s = deltac / (max_rgb + 1 / 10 ^ 8);
              deltac1 = (if deltac = 0 then 1 else deltac);
              rc = max_rgb - r;
              gc = max_rgb - g;
              bc = max_rgb - b;
              h1 = bc - gc;
              h2 = (rc - bc) + 2 * deltac1;
              h3 = (gc - rc) + 4 * deltac1;
              h = (if r = max_rgb then h1 else if g = max_rgb then h2 else h3) / deltac1
          in [2 * pi * frac (h / 6), s, v]
      | _ \<Rightarrow> [])"

definition hexcone_hsv_to_rgb :: "real list \<Rightarrow> real list" where
  "hexcone_hsv_to_rgb c =
     (case c of
        [h0, s, v] \<Rightarrow>
          let h = h0 / (2 * pi);
              hi = \<lfloor>h * 6\<rfloor> mod 6;
              f = (h * 6 - 6 * of_int \<lfloor>h * 6 / 6\<rfloor>) - of_int hi;
              p = v * (1 - s);
              q = v * (1 - f * s);
              t = v * (1 - (1 - f) * s)
          in if hi = 0 then [v, t, p]
             else if hi = 1 then [q, v, p]
             else if hi = 2 then [p, v, t]
             else if hi = 3 then [p, q, v]
             else if hi = 4 then [t, p, v]
             else [v, p, q]
      | _ \<Rightarrow> [])"

text \<open>
  A decomposition to run: the network answers log-illumination \<open>0\<close> everywhere
  (illumination \<open>1\<close>) on an image of the shape of its input, and a local exposure.
\<close>

definition unit_illumination_env :: "(unit, unit, unit) retinex_env" where
  "unit_illumination_env =
     \<lparr>retinex_embeds = (\<lambda>_. ()),
      retinex_net = (\<lambda>img _. \<lparr>log_illumination_map = pointwise (\<lambda>_. 0) img,
                               alpha = None, beta = None, local_exposure = Some (),
                               weights = None\<rparr>),
      rgb_to_hsv = hexcone_rgb_to_hsv,
      hsv_to_rgb = hexcone_hsv_to_rgb\<rparr>"

text \<open>
  A second one, whose network answers log-illumination \<open>ln 2\<close> everywhere
  (illumination \<open>2\<close>) and no local exposure.
\<close>

definition double_illumination_env :: "(unit, unit, unit) retinex_env" where
  "double_illumination_env =
     \<lparr>retinex_embeds = (\<lambda>_. ()),
      retinex_net = (\<lambda>img _. \<lparr>log_illumination_map = pointwise (\<lambda>_. ln 2) img,
                               alpha = None, beta = None, local_exposure = None,
                               weights = None\<rparr>),
      rgb_to_hsv = hexcone_rgb_to_hsv,
      hsv_to_rgb = hexcone_hsv_to_rgb\<rparr>"

section \<open>\<^verbatim>\<open>Runner.retinex_train_step\<close>\<close>

text \<open>
  The fields of the configuration the loss composition reads, in the pre-training step and
  in the main loop.
\<close>

record loss_config =
  enable_retinex :: bool
  use_hsv_color_space :: bool
  multi_scale_retinex :: bool
  enable_dynamic_weights :: bool
  learn_global_exposure :: bool
  learn_local_exposure :: bool
  tb_every :: int
  lambda_reflect :: real
  lambda_illum_color :: real
  lambda_illum_exposure :: real
  lambda_smooth :: real
  lambda_illum_curve :: real
  lambda_laplacian :: real
  lambda_gradient :: real
  lambda_frequency :: real
  lambda_edge_aware_smooth :: real
  lambda_illum_exposure_local :: real
  lambda_illum_frequency :: real
  lambda_exclusion :: real
  ssim_lambda :: real
  lambda_low :: real
  lambda_illumination :: real
  depth_loss :: bool
  depth_lambda :: real
  use_bilateral_grid :: bool
  opacity_reg :: real
  scale_reg :: real

text \<open>
  The loss modules created in \<^verbatim>\<open>Runner.__init__\<close> (lines 218--243), each a
  function of the tensors it is called with. An optional argument that a call leaves out
  is \<open>None\<close>.
\<close>

record ('id, 't) loss_modules =
  loss_color :: "image \<Rightarrow> real"
  loss_exposure :: "image \<Rightarrow> real option \<Rightarrow> real"
  loss_smooth :: "image \<Rightarrow> real"
  loss_spatial :: "image \<Rightarrow> image \<Rightarrow> real \<Rightarrow> 'id \<Rightarrow> real"
  loss_adaptive_curve :: "image \<Rightarrow> 't option \<Rightarrow> 't option \<Rightarrow> real"
  loss_details :: "image \<Rightarrow> image"
  loss_gradient :: "image \<Rightarrow> image \<Rightarrow> real"
  loss_frequency :: "image \<Rightarrow> image \<Rightarrow> real"
  loss_edge_aware_smooth :: "image \<Rightarrow> image \<Rightarrow> real"
  loss_exposure_local :: "image \<Rightarrow> 't option option \<Rightarrow> real"
  loss_illum_frequency :: "image \<Rightarrow> real"
  loss_exclusion :: "image \<Rightarrow> image \<Rightarrow> real"

text \<open>
  Lines 638--640 and 1126--1128: the mean absolute difference of the detail filter on the
  reflectance and on the working image. The subtraction broadcasts: in HSV mode the
  reflectance has three channels and the working image one.
\<close>

definition laplacian_term :: "('id, 't) loss_modules \<Rightarrow> image \<Rightarrow> image \<Rightarrow> py_error + real" where
  "laplacian_term m reflectance input_image =
     (case tensor_op (-) (loss_details m reflectance) (loss_details m input_image) of
        Inl e \<Rightarrow> Inl e
      | Inr difference \<Rightarrow> Inr (mean (pointwise abs difference)))"

text \<open>
  Lines 622--665: the twelve unweighted terms of the decomposition \<open>out\<close> of
  \<open>pixels\<close>, in the order they are stacked.
\<close>

definition individual_losses ::
  "('id, 't) loss_modules \<Rightarrow> 'c loss_config_scheme \<Rightarrow> real \<Rightarrow> 'id \<Rightarrow> image \<Rightarrow> 't retinex_output \<Rightarrow>
     py_error + real list" where
  "individual_losses m cfg global_mean_val_param images_ids pixels out =
     (let global_mean_val_target = sigmoid global_mean_val_param;
          loss_color_val =
            (if \<not> use_hsv_color_space cfg then loss_color m (illumination_map out) else 0);
          loss_smoothing = loss_smooth m (illumination_map out);
          loss_adaptive_curve_val =
            loss_adaptive_curve m (reflectance_map out) (out_alpha out) (out_beta out);
          loss_exposure_val =
            (if learn_global_exposure cfg
             then loss_exposure m (reflectance_map out) (Some global_mean_val_target)
             else loss_exposure m (reflectance_map out) None);
          con_degree = 0.5 / mean pixels;
          loss_reflectance_spa =
            loss_spatial m (input_image_for_net out) (reflectance_map out) con_degree images_ids
      in case laplacian_term m (reflectance_map out) (input_image_for_net out) of
           Inl e \<Rightarrow> Inl e
         | Inr loss_laplacian_val \<Rightarrow>
             let loss_gradient_val = loss_gradient m (input_image_for_net out) (reflectance_map out);
                 loss_frequency_val = loss_frequency m (input_image_for_net out) (reflectance_map out);
                 loss_smooth_edge_aware =
                   loss_edge_aware_smooth m (illumination_map out) (input_image_for_net out);
                 loss_exposure_local_val =
                   (if learn_local_exposure cfg
                    then loss_exposure_local m (reflectance_map out) (Some (out_local_exposure out))
                    else loss_exposure_local m (reflectance_map out) None);
                 loss_illumination_frequency_penalty = loss_illum_frequency m (illumination_map out);
                 loss_exclusion_val = loss_exclusion m (reflectance_map out) (illumination_map out)
             in Inr [loss_reflectance_spa,
                     loss_color_val,
                     loss_exposure_val,
                     loss_smoothing,
                     loss_adaptive_curve_val,
                     loss_laplacian_val,
                     loss_gradient_val,
                     loss_frequency_val,
                     loss_smooth_edge_aware,
                     loss_exposure_local_val,
                     loss_illumination_frequency_penalty,
                     loss_exclusion_val])"

text \<open>Lines 667--680: the static weights, in the same order.\<close>

definition base_lambdas :: "'c loss_config_scheme \<Rightarrow> real list" where
  "base_lambdas cfg =
     [lambda_reflect cfg,
      lambda_illum_color cfg,
      lambda_illum_exposure cfg,
      lambda_smooth cfg,
      lambda_illum_curve cfg,
      lambda_laplacian cfg,
      lambda_gradient cfg,
      lambda_frequency cfg,
      lambda_edge_aware_smooth cfg,
      lambda_illum_exposure_local cfg,
      lambda_illum_frequency cfg,
      lambda_exclusion cfg]"

text \<open>
  Lines 683--700. \<open>log_vars\<close> is the network's vector of learned log-variances (the
  network is built with \<^verbatim>\<open>num_weight_scales=12\<close>, line 263). It is read only when
  both \<open>enable_dynamic_weights\<close> and \<open>multi_scale_retinex\<close> are set, and the
  product with the twelve weighted terms broadcasts.
\<close>

definition weighted_total :: "'c loss_config_scheme \<Rightarrow> real list \<Rightarrow> real list \<Rightarrow> py_error + real" where
  "weighted_total cfg losses log_vars =
     (if enable_dynamic_weights cfg \<and> multi_scale_retinex cfg then
        (case broadcast_dim (\<lambda>x v. Inr (x * exp (- v) / 2))
                (map2 (*) (base_lambdas cfg) losses) log_vars of
           Inl e \<Rightarrow> Inl e
         | Inr weighted \<Rightarrow>
             let term1 = sum_list weighted;
                 term2 = sum_list (map (\<lambda>v. 0.5 * v) log_vars)
             in Inr (term1 + term2))
      else Inr (sum_list (map2 (*) (base_lambdas cfg) losses)))"

text \<open>
  Lines 702--783, the logging block, as far as it can end the step: its guard
  \<^verbatim>\<open>step % self.cfg.tb_every == 0\<close> raises when \<open>tb_every\<close> is \<open>0\<close>; at a
  logging step line 716 indexes the logged log-variances with the twelve term indices (a
  single log-variance has passed the broadcast of line 689), and line 735 takes the mean
  of the local exposure, which the network may have returned as \<^verbatim>\<open>None\<close>. The attributes of the loss modules that the block logs are taken to be
  there.
\<close>

definition logging_error ::
  "'c loss_config_scheme \<Rightarrow> real list \<Rightarrow> 't retinex_output \<Rightarrow> int \<Rightarrow> py_error option" where
  "logging_error cfg log_vars out step =
     (if tb_every cfg = 0 then Some (ZeroDivisionError ''integer modulo by zero'')
      else if step mod tb_every cfg = 0 then
        (if enable_dynamic_weights cfg \<and> multi_scale_retinex cfg \<and> length log_vars = 1
         then Some (IndexError ''index 1 is out of bounds for dimension 0 with size 1'')
         else if multi_scale_retinex cfg \<and> out_local_exposure out = None
         then Some (AttributeError (quoted ''NoneType'' @ '' object has no attribute '' @ quoted ''mean''))
         else None)
      else None)"

text \<open>Lines 785--788, with \<^verbatim>\<open>lambda_clipping = 1.\<close>\<close>

definition clipping_penalty :: "image \<Rightarrow> real" where
  "clipping_penalty reflectance =
     (let loss_clipping_high = mean (pointwise (\<lambda>x. (relu (x - 0.98)) ^ 2) reflectance);
          loss_clipping_low = mean (pointwise (\<lambda>x. (relu (0.02 - x)) ^ 2) reflectance);
          lambda_clipping = 1
      in lambda_clipping * (loss_clipping_high + loss_clipping_low))"

text \<open>Lines 612--790.\<close>

definition retinex_train_step ::
  "('id, 'e, 't) retinex_env \<Rightarrow> ('id, 't) loss_modules \<Rightarrow> 'c loss_config_scheme \<Rightarrow> real \<Rightarrow> real list \<Rightarrow>
     dtype \<Rightarrow> 'id \<Rightarrow> image \<Rightarrow> int \<Rightarrow> py_error + real" where
  "retinex_train_step env m cfg global_mean_val_param log_vars pixels_dtype images_ids pixels step =
     (case get_retinex_output env (use_hsv_color_space cfg) pixels_dtype images_ids pixels of
        Inl e \<Rightarrow> Inl e
      | Inr out \<Rightarrow>
          (case individual_losses m cfg global_mean_val_param images_ids pixels out of
             Inl e \<Rightarrow> Inl e
           | Inr losses \<Rightarrow>
               (case weighted_total cfg losses log_vars of
                  Inl e \<Rightarrow> Inl e
                | Inr total_loss \<Rightarrow>
                    (case logging_error cfg log_vars out step of
                       Some e \<Rightarrow> Inl e
                     | None \<Rightarrow> Inr (total_loss + clipping_penalty (reflectance_map out))))))"

text \<open>
  The two totals in the words of the specification, for twelve terms: the literal weighted
  sum \<open>\<Sum>\<^sub>i w\<^sub>i l\<^sub>i\<close>, and the learned-uncertainty total
  \<open>\<Sum>\<^sub>i w\<^sub>i l\<^sub>i exp (- v\<^sub>i) / 2 + \<Sum>\<^sub>i v\<^sub>i / 2\<close>.
\<close>

definition spec_fixed_total :: "real list \<Rightarrow> real list \<Rightarrow> real" where
  "spec_fixed_total w l = (\<Sum>i<12. w ! i * l ! i)"

definition spec_kendall_total :: "real list \<Rightarrow> real list \<Rightarrow> real list \<Rightarrow> real" where
  "spec_kendall_total w l v = (\<Sum>i<12. w ! i * l ! i * exp (- (v ! i)) / 2) + (\<Sum>i<12. v ! i / 2)"

text \<open>
  A configuration and loss modules to run the step on: the static weights are
  \<open>1, \<dots>, 12\<close>, and every module but the detail filter answers a constant.
\<close>

definition example_loss_config :: loss_config where
  "example_loss_config =
     \<lparr>enable_retinex = True, use_hsv_color_space = False, multi_scale_retinex = True,
      enable_dynamic_weights = False, learn_global_exposure = False,
      learn_local_exposure = False, tb_every = 100,
      lambda_reflect = 1, lambda_illum_color = 2, lambda_illum_exposure = 3, lambda_smooth = 4,
      lambda_illum_curve = 5, lambda_laplacian = 6, lambda_gradient = 7, lambda_frequency = 8,
      lambda_edge_aware_smooth = 9, lambda_illum_exposure_local = 10,
      lambda_illum_frequency = 11, lambda_exclusion = 12,
      ssim_lambda = 1 / 5, lambda_low = 1 / 2, lambda_illumination = 1,
      depth_loss = False, depth_lambda = 0, use_bilateral_grid = False,
      opacity_reg = 0, scale_reg = 0\<rparr>"

definition example_modules :: "(unit, unit) loss_modules" where
  "example_modules =
     \<lparr>loss_color = (\<lambda>_. 2),
      loss_exposure = (\<lambda>_ _. 3),
      loss_smooth = (\<lambda>_. 4),
      loss_spatial = (\<lambda>_ _ _ _. 1),
      loss_adaptive_curve = (\<lambda>_ _ _. 5),
      loss_details = (\<lambda>t. pointwise (\<lambda>x. 2 ^ 23 * x) t),
      loss_gradient = (\<lambda>_ _. 7),
      loss_frequency = (\<lambda>_ _. 8),
      loss_edge_aware_smooth = (\<lambda>_ _. 9),
      loss_exposure_local = (\<lambda>_ _. 10),
      loss_illum_frequency = (\<lambda>_. 11),
      loss_exclusion = (\<lambda>_ _. 12)\<rparr>"

section \<open>\<^verbatim>\<open>Runner.__init__\<close>: scene state and configuration checks\<close>

text \<open>
  The strategy object of the configuration. The source branches on
  \<^verbatim>\<open>isinstance\<close> for the two variants it knows; \<open>OtherStrategy\<close> stands for any
  other object, with its \<^verbatim>\<open>repr\<close> and with what its \<^verbatim>\<open>check_sanity\<close>
  does when it is called (\<open>None\<close> when it returns, or the exception, for instance the
  \<^verbatim>\<open>AttributeError\<close> of an object without the method).
\<close>

datatype strategy = DefaultStrategy | MCMCStrategy | OtherStrategy string "py_error option"

text \<open>
  The rest of the configuration, on top of the fields the losses read. The fields
  \<open>cfg_\<dots>\<close> are the attributes of \<^verbatim>\<open>cfg\<close> that
  \<^verbatim>\<open>create_splats_with_optimizers\<close> receives under the same name without the prefix.
\<close>

record run_config = loss_config +
  cfg_init_type :: string
  cfg_init_num_pts :: nat
  cfg_means_lr :: real
  cfg_scales_lr :: real
  cfg_opacities_lr :: real
  cfg_quats_lr :: real
  cfg_sh0_lr :: real
  cfg_shN_lr :: real
  global_scale :: real
  cfg_sh_degree :: nat
  cfg_sparse_grad :: bool
  cfg_visible_adam :: bool
  cfg_batch_size :: int
  app_opt :: bool
  use_illum_opt :: bool
  packed :: bool
  cfg_strategy :: strategy
  compression :: "string option"
  lpips_net :: string
  render_traj_path :: string
  disable_video :: bool
  max_steps :: int
  save_steps :: "int list"
  ply_steps :: "int list"
  eval_steps :: "int list"
  save_ply :: bool

text \<open>
  The optional bilateral-grid library. The module keeps four handles to it, \<open>None\<close>
  until the script assigns them (lines 1908--1911 and 1937--1975); each field says whether
  the handle is set. The grid object itself is built by the library's class (line 403) and
  is never wrapped for distributed training; \<open>bil_grids_has_module\<close> says whether it
  answers the attribute \<^verbatim>\<open>module\<close> that line 1410 reads.
\<close>

record bilateral_grid_lib =
  BilateralGrid_set :: bool
  slice_func_set :: bool
  total_variation_loss_set :: bool
  color_correct_set :: bool
  bil_grids_has_module :: bool

text \<open>
  Lines 199 and 311--334: the call that builds the scene state. Nothing of the retinex
  configuration is passed on.
\<close>

definition splat_args_of :: "run_config \<Rightarrow> parser \<Rightarrow> nat \<Rightarrow> nat \<Rightarrow> splat_args" where
  "splat_args_of cfg p w_rank w_size =
     \<lparr>arg_parser = p,
      init_type = cfg_init_type cfg,
      init_num_pts = cfg_init_num_pts cfg,
      means_lr = cfg_means_lr cfg,
      scales_lr = cfg_scales_lr cfg,
      opacities_lr = cfg_opacities_lr cfg,
      quats_lr = cfg_quats_lr cfg,
      sh0_lr = cfg_sh0_lr cfg,
      shN_lr = cfg_shN_lr cfg,
      scene_scale = parser_scene_scale p * 1.1 * global_scale cfg,
      sh_degree = cfg_sh_degree cfg,
      sparse_grad = cfg_sparse_grad cfg,
      visible_adam = cfg_visible_adam cfg,
      batch_size = cfg_batch_size cfg,
      feature_dim = (if app_opt cfg then Some 32 else None),
      world_rank = w_rank,
      world_size = w_size\<rparr>"

datatype compression_method = PngCompression

text \<open>
  Line 207: \<^verbatim>\<open>math.sqrt(cfg.batch_size)\<close>, the first computation of the
  constructor that can raise.
\<close>

definition check_batch_size :: "int \<Rightarrow> py_error + unit" where
  "check_batch_size b = (if b < 0 then Inl (ValueError ''math domain error'') else Inr ())"

text \<open>
  Lines 217--308, with retinex enabled. With more than one worker the network is wrapped
  for distributed training (line 274), and line 289 then reads
  \<^verbatim>\<open>use_refinement\<close> on the wrapper, which does not have it; the conjunction
  reads it only when \<open>multi_scale_retinex\<close> is set. On the network itself the
  attribute is taken to be there.
\<close>

definition retinex_setup :: "'c loss_config_scheme \<Rightarrow> nat \<Rightarrow> py_error + unit" where
  "retinex_setup cfg w_size =
     (if enable_retinex cfg \<and> multi_scale_retinex cfg \<and> 1 < w_size
      then Inl (AttributeError (quoted ''DistributedDataParallel'' @ '' object has no attribute ''
                                @ quoted ''use_refinement''))
      else Inr ())"

text \<open>
  \<^verbatim>\<open>assert_never\<close> raises on every object it is given; its message ends with
  the \<^verbatim>\<open>repr\<close> of the object, cut after a hundred characters.
\<close>

definition assert_never :: "string \<Rightarrow> py_error" where
  "assert_never r =
     AssertionError (''Expected code to be unreachable, but got: ''
                     @ (if 100 < length r then take 100 r @ ''...'' else r))"

text \<open>
  Lines 337--345: the strategy's own \<^verbatim>\<open>check_sanity\<close>, then the branch on the
  variant. The \<^verbatim>\<open>check_sanity\<close> of the two known variants is not part of the
  trainer and is taken to return.
\<close>

definition check_strategy :: "strategy \<Rightarrow> py_error + unit" where
  "check_strategy s =
     (case s of
        DefaultStrategy \<Rightarrow> Inr ()
      | MCMCStrategy \<Rightarrow> Inr ()
      | OtherStrategy r (Some e) \<Rightarrow> Inl e
      | OtherStrategy r None \<Rightarrow> Inl (assert_never r))"

text \<open>Lines 347--352.\<close>

definition check_compression :: "string option \<Rightarrow> py_error + compression_method option" where
  "check_compression c =
     (case c of
        None \<Rightarrow> Inr None
      | Some method \<Rightarrow>
          if method = ''png'' then Inr (Some PngCompression)
          else Inl (ValueError (''Unknown compression strategy: '' @ method)))"

text \<open>Lines 399--402: the assertion on the library's class has no message.\<close>

definition check_bilateral_grid :: "bilateral_grid_lib \<Rightarrow> 'c loss_config_scheme \<Rightarrow> py_error + unit" where
  "check_bilateral_grid lib cfg =
     (if use_bilateral_grid cfg \<and> \<not> BilateralGrid_set lib then Inl (AssertionError [])
      else Inr ())"

text \<open>Lines 420--429.\<close>

definition check_lpips :: "string \<Rightarrow> py_error + unit" where
  "check_lpips net =
     (if net = ''alex'' then Inr ()
      else if net = ''vgg'' then Inr ()
      else Inl (ValueError (''Unknown LPIPS network: '' @ net)))"

text \<open>
  What the constructor leaves behind, as far as the properties below need it: the scene
  state, its optimizers, the compression method and the shapes of the running statistics
  (lines 443--447).
\<close>

record runner =
  runner_splats :: "(string \<times> shape) list"
  runner_optimizers :: "(string \<times> optimizer) list"
  runner_compression :: "compression_method option"
  running_stats :: "(string \<times> shape) list"

text \<open>
  \<^verbatim>\<open>len(self.splats["means"])\<close>: the leading dimension of the group, a
  \<^verbatim>\<open>KeyError\<close> without it. Every path of the constructor has the group.
\<close>

definition leading_dim :: "(string \<times> shape) list \<Rightarrow> string \<Rightarrow> nat" where
  "leading_dim groups name = (case map_of groups name of Some (n # _) \<Rightarrow> n | _ \<Rightarrow> 0)"

text \<open>
  The constructor, in the order of the source: the learning rate of line 207, the retinex
  modules (line 217), the scene state (line 312), the strategy (line 337), the compression
  method (line 347), the bilateral grid (line 400), the perceptual metric (line 420), the
  running statistics (line 443). The construction of the collaborating modules is not part
  of the trainer and is taken to succeed.
\<close>

definition runner_init ::
  "bilateral_grid_lib \<Rightarrow> run_config \<Rightarrow> parser \<Rightarrow> nat \<Rightarrow> nat \<Rightarrow> py_error + runner" where
  "runner_init lib cfg p w_rank w_size =
     (case check_batch_size (cfg_batch_size cfg) of
        Inl e \<Rightarrow> Inl e
      | Inr _ \<Rightarrow>
     (case retinex_setup cfg w_size of
        Inl e \<Rightarrow> Inl e
      | Inr _ \<Rightarrow>
     (case create_splats_with_optimizers (splat_args_of cfg p w_rank w_size) of
        Inl e \<Rightarrow> Inl e
      | Inr (sp, opts) \<Rightarrow>
     (case check_strategy (cfg_strategy cfg) of
        Inl e \<Rightarrow> Inl e
      | Inr _ \<Rightarrow>
     (case check_compression (compression cfg) of
        Inl e \<Rightarrow> Inl e
      | Inr method \<Rightarrow>
     (case check_bilateral_grid lib cfg of
        Inl e \<Rightarrow> Inl e
      | Inr _ \<Rightarrow>
     (case check_lpips (lpips_net cfg) of
        Inl e \<Rightarrow> Inl e
      | Inr _ \<Rightarrow>
          let n_gauss = leading_dim sp ''means'' in
          Inr \<lparr>runner_splats = sp,
               runner_optimizers = opts,
               runner_compression = method,
               running_stats = [(''grad2d'', [n_gauss]), (''count'', [n_gauss])]\<rparr>)))))))"

section \<open>\<^verbatim>\<open>Runner.rasterize_splats\<close>\<close>

text \<open>
  Lines 483--558. The two rasterizers are collaborators; what the trainer decides is which
  one runs, where the affine adjustment of the second colour tensor comes from, and the
  arity of the result. \<open>'t\<close> is the type of tensors and \<open>'i\<close> of the auxiliary
  information.
\<close>

datatype ('t, 'i) raster_out =
    Out3 't 't 'i
  | Out5 't 't 't 't 'i

datatype adjust_source = IllumModule | SplatsAdjust

text \<open>
  Lines 513--522: the only reads of \<open>adjust_k\<close> and \<open>adjust_b\<close> in the trainer are
  on the second branch.
\<close>

definition adjustment_of :: "'c run_config_scheme \<Rightarrow> adjust_source option" where
  "adjustment_of cfg =
     (if \<not> enable_retinex cfg then None
      else if use_illum_opt cfg then Some IllumModule
      else Some SplatsAdjust)"

record ('t, 'i) rasterizers =
  rasterization :: "'t \<Rightarrow> 't \<times> 't \<times> 'i"
  rasterization_dual :: "'t \<Rightarrow> 't \<Rightarrow> 't \<times> 't \<times> 't \<times> 't \<times> 'i"
  affine :: "adjust_source \<Rightarrow> 't \<Rightarrow> 't"
  mask_out :: "'t \<Rightarrow> 't"

text \<open>
  \<open>colors\<close> is the colour tensor of lines 467--477; \<open>affine src colors\<close> is
  \<^verbatim>\<open>colors * k + b\<close> with \<open>k\<close>, \<open>b\<close> from \<open>src\<close>; \<open>mask_out\<close> is the
  assignment \<^verbatim>\<open>render_colors[~masks] = 0\<close>.
\<close>

definition rasterize_splats ::
  "('t, 'i) rasterizers \<Rightarrow> 'c run_config_scheme \<Rightarrow> 't \<Rightarrow> bool \<Rightarrow> ('t, 'i) raster_out" where
  "rasterize_splats r cfg colors has_masks =
     (case adjustment_of cfg of
        None \<Rightarrow>
          (case rasterization r colors of
             (render_colors, render_alphas, info) \<Rightarrow>
               Out3 (if has_masks then mask_out r render_colors else render_colors) render_alphas info)
      | Some src \<Rightarrow>
          (case rasterization_dual r colors (affine r src colors) of
             (render_colors_enh, render_colors_low, render_enh_alphas, render_low_alphas, info) \<Rightarrow>
               Out5 render_colors_enh render_colors_low render_enh_alphas render_low_alphas info))"

text \<open>
  Lines 1010--1014 of \<^verbatim>\<open>train\<close> and 1584--1588 of \<^verbatim>\<open>eval\<close>: the four
  renderings \<open>(enh, low, alphas_enh, alphas_low)\<close> a step works with.
\<close>

definition unpack_train :: "('t, 'i) raster_out \<Rightarrow> 't \<times> 't \<times> 't \<times> 't" where
  "unpack_train out =
     (case out of
        Out5 renders_enh renders_low alphas_enh alphas_low info \<Rightarrow>
          (renders_enh, renders_low, alphas_enh, alphas_low)
      | Out3 renders_low alphas_low info \<Rightarrow>
          (renders_low, renders_low, alphas_low, alphas_low))"

definition unpack_eval :: "('t, 'i) raster_out \<Rightarrow> 't \<times> 't \<times> 't \<times> 't" where
  "unpack_eval out =
     (case out of
        Out5 colors_enh colors_low alphas_enh alphas_low info \<Rightarrow>
          (colors_enh, colors_low, alphas_enh, alphas_low)
      | Out3 colors_low alphas_low info \<Rightarrow>
          (colors_low, colors_low, colors_low, alphas_low))"

section \<open>Strategy dispatch after the backward pass\<close>

text \<open>
  Lines 1519--1538: the call the orchestrator makes, with the keyword argument that is
  particular to the variant (\<^verbatim>\<open>packed=cfg.packed\<close> or
  \<^verbatim>\<open>lr=schedulers[0].get_last_lr()[0]\<close>).
\<close>

datatype post_backward_call =
    DefaultPostBackward bool
  | MCMCPostBackward real

definition step_post_backward :: "'c run_config_scheme \<Rightarrow> real \<Rightarrow> py_error + post_backward_call" where
  "step_post_backward cfg last_lr =
     (case cfg_strategy cfg of
        DefaultStrategy \<Rightarrow> Inr (DefaultPostBackward (packed cfg))
      | MCMCStrategy \<Rightarrow> Inr (MCMCPostBackward last_lr)
      | OtherStrategy r _ \<Rightarrow> Inl (assert_never r))"

section \<open>Filesystem writes of a worker\<close>

text \<open>
  The files a worker writes, by kind: the configuration dump, the TensorBoard event log,
  the per-rank training statistics and checkpoint of a step, the point-cloud export, the
  comparison images and statistics of an evaluation stage, the trajectory video, and the
  per-rank compression directory. A stretch of code is modelled by the list of its writes,
  in order, and the exception that ends it, if any.
\<close>

datatype file_write =
    CfgYml
  | TensorBoard
  | TrainStats nat int
  | Checkpoint nat int
  | PlyExport int
  | EvalImages string int nat
  | EvalStats string int
  | TrajVideo int
  | CompressedSplats nat

type_synonym effects = "file_write list \<times> py_error option"

text \<open>One stretch after another: the second runs when the first has not raised.\<close>

definition and_then :: "effects \<Rightarrow> effects \<Rightarrow> effects" where
  "and_then a b =
     (case a of
        (ws, Some e) \<Rightarrow> (ws, Some e)
      | (ws, None) \<Rightarrow> (ws @ fst b, snd b))"

text \<open>Lines 881--883.\<close>

definition train_prologue_writes :: "nat \<Rightarrow> file_write list" where
  "train_prologue_writes w_rank = (if w_rank = 0 then [CfgYml] else [])"

text \<open>
  Lines 702--783 of \<^verbatim>\<open>retinex_train_step\<close>, run by every step of
  \<^verbatim>\<open>pre_train_retinex\<close>: the guard does not look at the rank. The two exceptions
  of a logging step come after its first writes.
\<close>

definition retinex_step_writes ::
  "'c loss_config_scheme \<Rightarrow> real list \<Rightarrow> 't retinex_output \<Rightarrow> int \<Rightarrow> effects" where
  "retinex_step_writes cfg log_vars out step =
     (if tb_every cfg = 0 then ([], logging_error cfg log_vars out step)
      else if step mod tb_every cfg = 0 then ([TensorBoard], logging_error cfg log_vars out step)
      else ([], None))"

text \<open>
  \<^verbatim>\<open>Runner.eval\<close>, lines 1548--1732, on \<open>n_val\<close> validation images: the images
  of every sample and the statistics are written on rank zero only. With the bilateral
  grid the first sample reaches the assertion of line 1651 after its images are written.
\<close>

definition eval_writes ::
  "bilateral_grid_lib \<Rightarrow> 'c loss_config_scheme \<Rightarrow> nat \<Rightarrow> nat \<Rightarrow> string \<Rightarrow> int \<Rightarrow> effects" where
  "eval_writes lib cfg w_rank n_val stage step =
     (if w_rank \<noteq> 0 then ([], None)
      else if use_bilateral_grid cfg \<and> \<not> color_correct_set lib \<and> 0 < n_val
      then ([EvalImages stage step 0], Some (AssertionError []))
      else (map (EvalImages stage step) [0..<n_val] @ [EvalStats stage step, TensorBoard], None))"

text \<open>
  \<^verbatim>\<open>Runner.render_traj\<close>, lines 1735--1845, for \<open>n_cams\<close> camera poses of the
  parser; \<open>has_intrinsics\<close> says whether \<^verbatim>\<open>parser.Ks_dict\<close> is non-empty. The
  path type is looked at only after the three early returns.
\<close>

definition render_traj :: "'c run_config_scheme \<Rightarrow> nat \<Rightarrow> nat \<Rightarrow> bool \<Rightarrow> int \<Rightarrow> effects" where
  "render_traj cfg w_rank n_cams has_intrinsics step =
     (if disable_video cfg then ([], None)
      else if w_rank \<noteq> 0 then ([], None)
      else if n_cams = 0 then ([], None)
      else if render_traj_path cfg = ''interp'' \<or> render_traj_path cfg = ''ellipse''
              \<or> render_traj_path cfg = ''spiral''
      then (if \<not> has_intrinsics then ([], None) else ([TrajVideo step, TensorBoard], None))
      else ([], Some (ValueError (''Render trajectory type not supported: '' @ render_traj_path cfg))))"

text \<open>
  \<^verbatim>\<open>Runner.run_compression\<close>, lines 1848--1861: the compressed scene state goes
  to the directory of the rank, whatever the rank, and an evaluation of the decompressed
  state follows.
\<close>

definition run_compression ::
  "bilateral_grid_lib \<Rightarrow> 'c loss_config_scheme \<Rightarrow> runner \<Rightarrow> nat \<Rightarrow> nat \<Rightarrow> int \<Rightarrow> effects" where
  "run_compression lib cfg r w_rank n_val step =
     (case runner_compression r of
        None \<Rightarrow> ([], None)
      | Some _ \<Rightarrow> and_then ([CompressedSplats w_rank], None)
                            (eval_writes lib cfg w_rank n_val ''compress'' step))"

text \<open>
  \<^verbatim>\<open>step in [i - 1 for i in steps]\<close>.
\<close>

definition is_step_of :: "int \<Rightarrow> int list \<Rightarrow> bool" where
  "is_step_of step steps = (step \<in> set (map (\<lambda>i. i - 1) steps))"

text \<open>
  Lines 1382--1423: the statistics file of the rank, then the checkpoint of the rank. With
  the bilateral grid and more than one worker the checkpoint data reads
  \<^verbatim>\<open>self.bil_grids.module\<close> (line 1410) before anything is saved.
\<close>

definition save_writes :: "bilateral_grid_lib \<Rightarrow> 'c run_config_scheme \<Rightarrow> nat \<Rightarrow> nat \<Rightarrow> int \<Rightarrow> effects" where
  "save_writes lib cfg w_rank w_size step =
     (if is_step_of step (save_steps cfg) \<or> step = max_steps cfg - 1 then
        (if use_bilateral_grid cfg \<and> 1 < w_size \<and> \<not> bil_grids_has_module lib
         then ([TrainStats w_rank step],
               Some (AttributeError (quoted ''BilateralGrid'' @ '' object has no attribute ''
                                     @ quoted ''module'')))
         else ([TrainStats w_rank step, Checkpoint w_rank step], None))
      else ([], None))"

text \<open>Lines 1424--1451: the export has one file name for all ranks.\<close>

definition ply_writes :: "'c run_config_scheme \<Rightarrow> int \<Rightarrow> effects" where
  "ply_writes cfg step =
     (if (is_step_of step (ply_steps cfg) \<or> step = max_steps cfg - 1) \<and> save_ply cfg
      then ([PlyExport step], None) else ([], None))"

text \<open>
  Lines 1453--1538 write nothing and can end the step: the assertion of line 1454 and the
  unreachable branch of the strategy dispatch.
\<close>

definition update_effects :: "'c run_config_scheme \<Rightarrow> real \<Rightarrow> effects" where
  "update_effects cfg last_lr =
     (if cfg_sparse_grad cfg \<and> \<not> packed cfg then ([], Some (AssertionError []))
      else (case step_post_backward cfg last_lr of
              Inl e \<Rightarrow> ([], Some e)
            | Inr _ \<Rightarrow> ([], None)))"

text \<open>
  The writes of one step of the main loop of \<^verbatim>\<open>Runner.train\<close>, lines 1302--1545,
  in order: the TensorBoard block, the statistics and checkpoint of a save step, the
  point-cloud export, and at an evaluation step the evaluation, the trajectory and the
  compression.
\<close>

definition train_step_writes ::
  "bilateral_grid_lib \<Rightarrow> 'c run_config_scheme \<Rightarrow> runner \<Rightarrow> nat \<Rightarrow> nat \<Rightarrow> nat \<Rightarrow> nat \<Rightarrow> bool \<Rightarrow>
     real \<Rightarrow> int \<Rightarrow> effects" where
  "train_step_writes lib cfg r w_rank w_size n_val n_cams has_intrinsics last_lr step =
     (let tb = (if w_rank = 0 \<and> tb_every cfg > 0 \<and> step mod tb_every cfg = 0
                then ([TensorBoard], None) else ([], None));
          evaluation =
            (if is_step_of step (eval_steps cfg)
             then and_then (eval_writes lib cfg w_rank n_val ''val'' step)
                    (and_then (render_traj cfg w_rank n_cams has_intrinsics step)
                       (if compression cfg \<noteq> None
                        then run_compression lib cfg r w_rank n_val step else ([], None)))
             else ([], None))
      in and_then tb
           (and_then (save_writes lib cfg w_rank w_size step)
              (and_then (ply_writes cfg step)
                 (and_then (update_effects cfg last_lr) evaluation))))"

text \<open>A configuration to run the constructor and the loop on.\<close>

definition example_run_config :: run_config where
  "example_run_config =
     \<lparr>enable_retinex = True, use_hsv_color_space = False, multi_scale_retinex = False,
      enable_dynamic_weights = False, learn_global_exposure = False,
      learn_local_exposure = False, tb_every = 100,
      lambda_reflect = 1, lambda_illum_color = 2, lambda_illum_exposure = 3, lambda_smooth = 4,
      lambda_illum_curve = 5, lambda_laplacian = 6, lambda_gradient = 7, lambda_frequency = 8,
      lambda_edge_aware_smooth = 9, lambda_illum_exposure_local = 10,
      lambda_illum_frequency = 11, lambda_exclusion = 12,
      ssim_lambda = 1 / 5, lambda_low = 1 / 2, lambda_illumination = 1,
      depth_loss = False, depth_lambda = 0, use_bilateral_grid = False,
      opacity_reg = 0, scale_reg = 0,
      cfg_init_type = ''sfm'', cfg_init_num_pts = 100000,
      cfg_means_lr = 1, cfg_scales_lr = 2, cfg_opacities_lr = 3, cfg_quats_lr = 4,
      cfg_sh0_lr = 5, cfg_shN_lr = 6, global_scale = 1, cfg_sh_degree = 3,
      cfg_sparse_grad = False, cfg_visible_adam = False, cfg_batch_size = 2,
      app_opt = False, use_illum_opt = False, packed = False,
      cfg_strategy = DefaultStrategy, compression = Some ''png'', lpips_net = ''alex'',
      render_traj_path = ''interp'', disable_video = False, max_steps = 30000,
      save_steps = [7000, 30000], ply_steps = [7000, 30000], eval_steps = [7000, 30000],
      save_ply = True\<rparr>"

definition example_parser :: parser where
  "example_parser = \<lparr>points_rows = 10, parser_scene_scale = 1\<rparr>"

text \<open>The script has not loaded the bilateral-grid library.\<close>

definition no_bilateral_grid :: bilateral_grid_lib where
  "no_bilateral_grid =
     \<lparr>BilateralGrid_set = False, slice_func_set = False, total_variation_loss_set = False,
      color_correct_set = False, bil_grids_has_module = False\<rparr>"

text \<open>
  The runner the constructor builds from the example on either rank of two workers: five
  of the ten points.
\<close>

definition example_runner :: runner where
  "example_runner =
     \<lparr>runner_splats =
        [(''means'', [5, 3]), (''scales'', [5, 3]), (''quats'', [5, 4]), (''opacities'', [5]),
         (''sh0'', [5, 1, 3]), (''shN'', [5, 15, 3]), (''adjust_k'', [5, 1, 3]),
         (''adjust_b'', [5, 1, 3])],
      runner_optimizers =
        map (make_optimizer AdamW 4)
          [(''means'', [5, 3], 1.1), (''scales'', [5, 3], 2), (''quats'', [5, 4], 4),
           (''opacities'', [5], 3), (''sh0'', [5, 1, 3], 5), (''shN'', [5, 15, 3], 6),
           (''adjust_k'', [5, 1, 3], 5), (''adjust_b'', [5, 1, 3], 5)],
      runner_compression = Some PngCompression,
      running_stats = [(''grad2d'', [5]), (''count'', [5])]\<rparr>"

section \<open>The loss of a step of the main loop\<close>

text \<open>
  Gradient flow. A tensor carries the set of learnable parameter groups its autograd graph
  reaches; an operation joins the sets of its operands, and
  \<^verbatim>\<open>detach()\<close> empties the set.
\<close>

datatype param_source = SceneParams | RetinexParams | GridParams

record 'a tracked =
  data :: 'a
  grad_sources :: "param_source set"

definition detach :: "'a tracked \<Rightarrow> 'a tracked" where
  "detach t = t\<lparr>grad_sources := {}\<rparr>"

definition untracked :: "'a \<Rightarrow> 'a tracked" where
  "untracked x = \<lparr>data = x, grad_sources = {}\<rparr>"

definition lift1 :: "('a \<Rightarrow> 'b) \<Rightarrow> 'a tracked \<Rightarrow> 'b tracked" where
  "lift1 f a = \<lparr>data = f (data a), grad_sources = grad_sources a\<rparr>"

definition lift2 :: "('a \<Rightarrow> 'b \<Rightarrow> 'c) \<Rightarrow> 'a tracked \<Rightarrow> 'b tracked \<Rightarrow> 'c tracked" where
  "lift2 f a b = \<lparr>data = f (data a) (data b), grad_sources = grad_sources a \<union> grad_sources b\<rparr>"

definition tadd :: "real tracked \<Rightarrow> real tracked \<Rightarrow> real tracked" where
  "tadd a b = lift2 (+) a b"

definition tscale :: "real tracked \<Rightarrow> real \<Rightarrow> real tracked" where
  "tscale a c = lift1 (\<lambda>x. x * c) a"

text \<open>
  The library functions of the reconstruction and depth losses: \<^verbatim>\<open>F.l1_loss\<close>,
  \<^verbatim>\<open>self.ssim\<close>, \<^verbatim>\<open>self.lpips\<close>, and \<^verbatim>\<open>F.grid_sample\<close> of a
  depth map (of type \<open>'d\<close>) at a list of points.
\<close>

record 'd metrics =
  F_l1_loss :: "image \<Rightarrow> image \<Rightarrow> real"
  ssim :: "image \<Rightarrow> image \<Rightarrow> real"
  lpips :: "image \<Rightarrow> image \<Rightarrow> real"
  F_grid_sample :: "'d \<Rightarrow> (real \<times> real) list \<Rightarrow> real list"

text \<open>
  What a step of the loop has in hand when it composes its loss: the batch (its image
  identifiers, its pixels after the clamp of line 1031, its size, and with the depth loss
  its points and depths), the two renderings after lines 1029--1062, the two depth maps
  when the rendering has a fourth channel (line 1016 decides both by the low rendering),
  the total variation of the bilateral grids, and the two parameter groups the
  regularisers read.
\<close>

record ('id, 'd) step_data =
  image_ids :: 'id
  clamped_pixels :: image
  width :: int
  height :: int
  points :: "(real \<times> real) list"
  depths_gt :: "real list"
  colors_low :: "image tracked"
  colors_enh :: "image tracked"
  depths :: "('d \<times> 'd) option"
  grids_total_variation :: real
  opacities :: "real list"
  scales :: image

text \<open>
  Lines 1076--1090, and 1160--1168 without the perceptual term: the loss of the low path
  against the ground-truth pixels.
\<close>

definition ssim_loss_low :: "'d metrics \<Rightarrow> image tracked \<Rightarrow> image tracked \<Rightarrow> real tracked" where
  "ssim_loss_low mt c_low gt = lift1 (\<lambda>x. 1 - x) (lift2 (ssim mt) c_low gt)"

definition low_loss :: "'d metrics \<Rightarrow> 'c loss_config_scheme \<Rightarrow> image tracked \<Rightarrow> image tracked \<Rightarrow> real tracked" where
  "low_loss mt cfg c_low gt =
     (let loss_reconstruct_low = lift2 (F_l1_loss mt) c_low gt;
          ssim_loss = ssim_loss_low mt c_low gt;
          lpips_loss = lift2 (lpips mt) c_low gt
      in tadd (tadd (tscale ssim_loss (ssim_lambda cfg))
                    (tscale loss_reconstruct_low (1 - ssim_lambda cfg)))
              (tscale lpips_loss 0.1))"

text \<open>
  Lines 1092--1108: the loss of the enhanced path against the reflectance target. The
  pixelwise term takes the detached target, the structural term the target itself; the
  perceptual term is commented out.
\<close>

definition loss_reflectance :: "'d metrics \<Rightarrow> image tracked \<Rightarrow> image tracked \<Rightarrow> real tracked" where
  "loss_reflectance mt c_enh reflectance_target =
     lift2 (F_l1_loss mt) c_enh (detach reflectance_target)"

definition loss_reflectance_ssim :: "'d metrics \<Rightarrow> image tracked \<Rightarrow> image tracked \<Rightarrow> real tracked" where
  "loss_reflectance_ssim mt c_enh reflectance_target =
     lift1 (\<lambda>x. 1 - x) (lift2 (ssim mt) c_enh reflectance_target)"

definition loss_reconstruct_enh ::
  "'d metrics \<Rightarrow> 'c loss_config_scheme \<Rightarrow> image tracked \<Rightarrow> image tracked \<Rightarrow> real tracked" where
  "loss_reconstruct_enh mt cfg c_enh reflectance_target =
     tadd (tscale (loss_reflectance mt c_enh reflectance_target) (1 - ssim_lambda cfg))
          (tscale (loss_reflectance_ssim mt c_enh reflectance_target) (ssim_lambda cfg))"

text \<open>
  Lines 1110--1137: the nine illumination terms of the main loop, in the order of the fields.
  The exposure term always receives the global target here.
\<close>

record illumination_terms =
  loss_illum_contrast :: real
  loss_illum_exposure :: real
  loss_illum_color :: real
  loss_illum_smooth :: real
  loss_illum_curve :: real
  loss_illum_laplacian :: real
  loss_illum_gradient :: real
  loss_illum_frequency_val :: real
  loss_illum_edge_aware_smooth :: real

definition illumination_terms_of ::
  "('id, 't) loss_modules \<Rightarrow> 'c loss_config_scheme \<Rightarrow> real \<Rightarrow> 'id \<Rightarrow> image \<Rightarrow>
     't retinex_output \<Rightarrow> py_error + illumination_terms" where
  "illumination_terms_of m cfg global_mean_val_param ids gt out =
     (let global_exposure_mean = sigmoid global_mean_val_param;
          con_degree = 0.5 / mean gt
      in case laplacian_term m (reflectance_map out) (input_image_for_net out) of
           Inl e \<Rightarrow> Inl e
         | Inr laplacian \<Rightarrow>
             Inr \<lparr>loss_illum_contrast =
                    loss_spatial m (input_image_for_net out) (reflectance_map out) con_degree ids,
                  loss_illum_exposure =
                    loss_exposure m (reflectance_map out) (Some global_exposure_mean),
                  loss_illum_color =
                    (if \<not> use_hsv_color_space cfg then loss_color m (illumination_map out) else 0),
                  loss_illum_smooth = loss_smooth m (illumination_map out),
                  loss_illum_curve =
                    loss_adaptive_curve m (reflectance_map out) (out_alpha out) (out_beta out),
                  loss_illum_laplacian = laplacian,
                  loss_illum_gradient =
                    loss_gradient m (input_image_for_net out) (reflectance_map out),
                  loss_illum_frequency_val =
                    loss_frequency m (input_image_for_net out) (reflectance_map out),
                  loss_illum_edge_aware_smooth =
                    loss_edge_aware_smooth m (illumination_map out) (input_image_for_net out)\<rparr>)"

text \<open>Lines 1140--1151.\<close>

definition loss_illumination :: "'c loss_config_scheme \<Rightarrow> illumination_terms \<Rightarrow> real" where
  "loss_illumination cfg t =
     lambda_reflect cfg * loss_illum_contrast t
     + lambda_illum_exposure cfg * loss_illum_exposure t
     + lambda_illum_color cfg * loss_illum_color t
     + lambda_smooth cfg * loss_illum_smooth t
     + lambda_illum_curve cfg * loss_illum_curve t
     + lambda_laplacian cfg * loss_illum_laplacian t
     + lambda_gradient cfg * loss_illum_gradient t
     + lambda_frequency cfg * loss_illum_frequency_val t
     + lambda_edge_aware_smooth cfg * loss_illum_edge_aware_smooth t"

text \<open>
  The locals both branches of lines 1066--1180 define: the loss so far, the loss of the low
  path, the weighted illumination total, and the illumination terms that are logged. The
  disabled branch sets the terms it names to zero and defines no others.
\<close>

record branch_losses =
  branch_loss :: "real tracked"
  branch_low_loss :: "real tracked"
  branch_loss_illumination :: "real tracked"
  branch_terms :: "real list"

text \<open>
  Lines 1066--1180. The ground-truth pixels carry no gradient; the tensors of the
  decomposition reach the retinex parameters.
\<close>

definition reconstruction_losses ::
  "('id, 'e, 't) retinex_env \<Rightarrow> ('id, 't) loss_modules \<Rightarrow> 'd metrics \<Rightarrow> 'c loss_config_scheme \<Rightarrow>
     real \<Rightarrow> dtype \<Rightarrow> ('id, 'd) step_data \<Rightarrow> py_error + branch_losses" where
  "reconstruction_losses env m mt cfg global_mean_val_param pixels_dtype sd =
     (if enable_retinex cfg then
        (case get_retinex_output env (use_hsv_color_space cfg) pixels_dtype (image_ids sd) (clamped_pixels sd) of
           Inl e \<Rightarrow> Inl e
         | Inr out \<Rightarrow>
             let reflectance_target = \<lparr>data = reflectance_map out, grad_sources = {RetinexParams}\<rparr>;
                 low = low_loss mt cfg (colors_low sd) (untracked (clamped_pixels sd));
                 enh = loss_reconstruct_enh mt cfg (colors_enh sd) reflectance_target
             in (case illumination_terms_of m cfg global_mean_val_param (image_ids sd) (clamped_pixels sd) out of
                   Inl e \<Rightarrow> Inl e
                 | Inr terms \<Rightarrow>
                     let illum = \<lparr>data = loss_illumination cfg terms, grad_sources = {RetinexParams}\<rparr>
                     in Inr \<lparr>branch_loss =
                               tadd (tadd (tscale low (lambda_low cfg)) (tscale enh (1 - lambda_low cfg)))
                                    (tscale illum (lambda_illumination cfg)),
                             branch_low_loss = low,
                             branch_loss_illumination = illum,
                             branch_terms =
                               [loss_illum_color terms, loss_illum_smooth terms, loss_illum_curve terms,
                                loss_illum_exposure terms, loss_illum_contrast terms,
                                loss_illum_laplacian terms]\<rparr>))
      else
        let f1 = lift2 (F_l1_loss mt) (colors_low sd) (untracked (clamped_pixels sd));
            ssim_loss = ssim_loss_low mt (colors_low sd) (untracked (clamped_pixels sd));
            loss = tadd (tscale f1 (1 - ssim_lambda cfg)) (tscale ssim_loss (ssim_lambda cfg))
        in Inr \<lparr>branch_loss = loss,
                branch_low_loss = loss,
                branch_loss_illumination = untracked 0,
                branch_terms = [0, 0, 0, 0, 0, 0]\<rparr>)"

text \<open>
  Lines 1210--1216 and 1236--1242: the points are mapped to \<open>[-1, 1]\<close>. The second
  block maps the points of the first once more.
\<close>

definition normalize_points :: "int \<Rightarrow> int \<Rightarrow> (real \<times> real) list \<Rightarrow> (real \<times> real) list" where
  "normalize_points w h pts =
     map (\<lambda>(x, y). (x / real_of_int (w - 1) * 2 - 1, y / real_of_int (h - 1) * 2 - 1)) pts"

text \<open>
  Lines 1218--1227 and 1244--1255: the depth map is sampled at the points, and the loss is
  the pixelwise loss of the disparities (zero where the sampled depth is not positive)
  times the scale of the scene.
\<close>

definition disparity_loss ::
  "'d metrics \<Rightarrow> real \<Rightarrow> 'd \<Rightarrow> (real \<times> real) list \<Rightarrow> real list \<Rightarrow> real" where
  "disparity_loss mt runner_scene_scale depth_map grid gt_depths =
     (let sampled = F_grid_sample mt depth_map grid;
          disp = map (\<lambda>d. if d > 0 then 1 / d else 0) sampled;
          disp_gt = map (\<lambda>d. 1 / d) gt_depths
      in F_l1_loss mt [disp] [disp_gt] * runner_scene_scale)"

text \<open>
  Lines 1198--1256: the depth terms. The assertion on the enhanced depths cannot fail
  where the one on the low depths has passed.
\<close>

definition add_depth_loss ::
  "'d metrics \<Rightarrow> 'c loss_config_scheme \<Rightarrow> real \<Rightarrow> ('id, 'd) step_data \<Rightarrow> real tracked \<Rightarrow>
     py_error + real tracked" where
  "add_depth_loss mt cfg runner_scene_scale sd loss =
     (if \<not> depth_loss cfg then Inr loss
      else
        (case depths sd of
           None \<Rightarrow> Inl (AssertionError ''Low-resolution depths are required for depth loss'')
         | Some (depths_low, depths_enh) \<Rightarrow>
             let points1 = normalize_points (width sd) (height sd) (points sd);
                 depthloss =
                   \<lparr>data = disparity_loss mt runner_scene_scale depths_low points1 (depths_gt sd),
                    grad_sources = {SceneParams}\<rparr>;
                 loss1 = tadd loss (tscale depthloss (depth_lambda cfg))
             in if \<not> enable_retinex cfg then Inr loss1
                else
                  let points2 = normalize_points (width sd) (height sd) points1;
                      depthloss_enh =
                        \<lparr>data = disparity_loss mt runner_scene_scale depths_enh points2 (depths_gt sd),
                         grad_sources = {SceneParams}\<rparr>
                  in Inr (tadd loss1 (tscale depthloss_enh (depth_lambda cfg)))))"

text \<open>
  Lines 1258--1278: the total variation of the bilateral grids, ten times, and the
  regularisers of the opacities and of the scales.
\<close>

definition add_regularisers ::
  "bilateral_grid_lib \<Rightarrow> 'c loss_config_scheme \<Rightarrow> ('id, 'd) step_data \<Rightarrow> real tracked \<Rightarrow>
     py_error + real tracked" where
  "add_regularisers lib cfg sd loss =
     (if use_bilateral_grid cfg \<and> \<not> total_variation_loss_set lib then Inl (AssertionError [])
      else
        let tvloss_value = \<lparr>data = 10 * grids_total_variation sd, grad_sources = {GridParams}\<rparr>;
            loss1 = (if use_bilateral_grid cfg then tadd loss tvloss_value else loss);
            opacity_term =
              \<lparr>data = opacity_reg cfg
                       * (sum_list (map (\<lambda>x. \<bar>sigmoid x\<bar>) (opacities sd)) / real (length (opacities sd))),
               grad_sources = {SceneParams}\<rparr>;
            loss2 = (if opacity_reg cfg > 0 then tadd loss1 opacity_term else loss1);
            scale_term =
              \<lparr>data = scale_reg cfg * mean (pointwise (\<lambda>x. \<bar>exp x\<bar>) (scales sd)),
               grad_sources = {SceneParams}\<rparr>
        in Inr (if scale_reg cfg > 0 then tadd loss2 scale_term else loss2))"

text \<open>
  The loss the backward pass of line 1280 starts from: the assertion of line 1034, the
  reconstruction losses, the depth terms and the regularisers.
\<close>

definition train_step_loss ::
  "bilateral_grid_lib \<Rightarrow> ('id, 'e, 't) retinex_env \<Rightarrow> ('id, 't) loss_modules \<Rightarrow> 'd metrics \<Rightarrow>
     'c loss_config_scheme \<Rightarrow> real \<Rightarrow> dtype \<Rightarrow> real \<Rightarrow> ('id, 'd) step_data \<Rightarrow> py_error + real tracked" where
  "train_step_loss lib env m mt cfg global_mean_val_param pixels_dtype runner_scene_scale sd =
     (if use_bilateral_grid cfg \<and> \<not> slice_func_set lib
      then Inl (AssertionError ''slice_func must be defined for bilateral grid slicing'')
      else
        (case reconstruction_losses env m mt cfg global_mean_val_param pixels_dtype sd of
           Inl e \<Rightarrow> Inl e
         | Inr b \<Rightarrow>
             (case add_depth_loss mt cfg runner_scene_scale sd (branch_loss b) of
                Inl e \<Rightarrow> Inl e
              | Inr loss \<Rightarrow> add_regularisers lib cfg sd loss)))"

text \<open>
  Library functions and a step to run: the pixelwise loss is the mean absolute
  difference, the other two metrics answer constants, a depth map is the list of its depths
  and sampling returns it whatever the points.
\<close>

definition example_metrics :: "(real list) metrics" where
  "example_metrics =
     \<lparr>F_l1_loss = (\<lambda>a b. mean (pointwise abs (pointwise2 (-) a b))),
      ssim = (\<lambda>_ _. 1 / 2),
      lpips = (\<lambda>_ _. 1),
      F_grid_sample = (\<lambda>d _. d)\<rparr>"

text \<open>
  A ground-truth pixel and two renderings of it: the low rendering is the pixel itself, the
  enhanced rendering is the reflectance \<open>unit_illumination_env\<close> gives for it. The
  sampled depths are \<open>2\<close> and \<open>0\<close> on the low path and \<open>4\<close> and \<open>1\<close> on
  the enhanced path, against the depths \<open>1\<close> and \<open>1\<close>.
\<close>

definition example_step :: "(unit, real list) step_data" where
  "example_step =
     \<lparr>image_ids = (),
      clamped_pixels = [[1/2, 1/4, 1/4]],
      width = 3,
      height = 3,
      points = [(0, 0), (2, 2)],
      depths_gt = [1, 1],
      colors_low = \<lparr>data = [[1/2, 1/4, 1/4]], grad_sources = {SceneParams}\<rparr>,
      colors_enh = \<lparr>data = [[1/2 + 1 / 2 ^ 23, 1/4 + 1 / 2 ^ 23, 1/4 + 1 / 2 ^ 23]],
                    grad_sources = {SceneParams}\<rparr>,
      depths = Some ([2, 0], [4, 1]),
      grids_total_variation = 1 / 20,
      opacities = [0, 0],
      scales = [[0, 0, 0], [0, 0, 0]]\<rparr>"

text \<open>
  A configuration with every regulariser of the loop enabled, and the library it needs.
\<close>

definition example_regularised_config :: loss_config where
  "example_regularised_config =
     example_loss_config\<lparr>depth_loss := True, depth_lambda := 1 / 10, use_bilateral_grid := True,
                         opacity_reg := 1 / 100, scale_reg := 1 / 50\<rparr>"

definition loaded_bilateral_grid :: bilateral_grid_lib where
  "loaded_bilateral_grid =
     \<lparr>BilateralGrid_set = True, slice_func_set = True, total_variation_loss_set = True,
      color_correct_set = True, bil_grids_has_module = False\<rparr>"

text \<open>
  Rasterizers to run \<open>rasterize_splats\<close> on: tensors are numbers, the single rendering
  is the colour with alpha \<open>1\<close>, and the mask sets it to \<open>0\<close>.
\<close>

definition example_rasterizers :: "(real, unit) rasterizers" where
  "example_rasterizers =
     \<lparr>rasterization = (\<lambda>c. (c, 1, ())),
      rasterization_dual = (\<lambda>c c_low. (c, c_low, 1, 1, ())),
      affine = (\<lambda>_ c. 2 * c),
      mask_out = (\<lambda>_. 0)\<rparr>"

section \<open>Gaussian count during training\<close>

text \<open>
  The part of the training state whose shapes matter: the scene state, the state tensors
  each optimizer keeps for its parameter group, and the running statistics of the runner.
  The optimizers are constructed without state.
\<close>

record train_state =
  st_splats :: "(string \<times> shape) list"
  st_opt_state :: "(string \<times> optimizer_class \<times> shape list) list"
  st_running_stats :: "(string \<times> shape) list"

definition initial_state :: "runner \<Rightarrow> train_state" where
  "initial_state r =
     \<lparr>st_splats = runner_splats r,
      st_opt_state = map (\<lambda>(name, opt). (name, opt_class opt, [])) (runner_optimizers r),
      st_running_stats = running_stats r\<rparr>"

definition gaussian_count :: "train_state \<Rightarrow> nat" where
  "gaussian_count st = leading_dim (st_splats st) ''means''"

text \<open>
  The state an optimizer of the library creates for a parameter at its first step with a
  gradient: the two moment tensors \<^verbatim>\<open>exp_avg\<close> and \<^verbatim>\<open>exp_avg_sq\<close> of the
  parameter's shape and the step counter, a tensor without dimensions
  (for \<^verbatim>\<open>SparseAdam\<close> a plain integer, which is no tensor).
\<close>

definition fresh_state :: "optimizer_class \<Rightarrow> shape \<Rightarrow> shape list" where
  "fresh_state cls sh = (case cls of SparseAdam \<Rightarrow> [sh, sh] | _ \<Rightarrow> [[], sh, sh])"

text \<open>
  One optimizer at a step: without a gradient the parameter is skipped; a first step
  creates the state; a later step updates the moment tensors in place, which raises when
  their shape is not the shape of the parameter.
\<close>

definition step_group :: "optimizer_class \<Rightarrow> bool \<Rightarrow> shape \<Rightarrow> shape list \<Rightarrow> py_error + shape list" where
  "step_group cls has_grad sh state =
     (if \<not> has_grad then Inr state
      else if state = [] then Inr (fresh_state cls sh)
      else if list_all (\<lambda>s. s = [] \<or> s = sh) state then Inr state
      else Inl (RuntimeError ''The size of tensor a must match the size of tensor b''))"

text \<open>
  Lines 1478--1483: every optimizer of the scene state steps; \<open>with_grad\<close> names the
  groups that received a gradient in the backward pass. A step changes entries, never a
  shape of the scene state.
\<close>

definition optimizer_step :: "string list \<Rightarrow> train_state \<Rightarrow> py_error + train_state" where
  "optimizer_step with_grad st =
     (case collect
             (map (\<lambda>(name, cls, state).
                      case map_of (st_splats st) name of
                        None \<Rightarrow> Inl (KeyError name)
                      | Some sh \<Rightarrow>
                          (case step_group cls (name \<in> set with_grad) sh state of
                             Inl e \<Rightarrow> Inl e
                           | Inr state' \<Rightarrow> Inr (name, cls, state')))
                  (st_opt_state st)) of
        Inl e \<Rightarrow> Inl e
      | Inr opt_state \<Rightarrow> Inr (st\<lparr>st_opt_state := opt_state\<rparr>))"

text \<open>
  Modelled from the spec: the structural mutation of the density adaptation strategy
  (\<^verbatim>\<open>gsplat.strategy\<close>), whose code is not part of the trainer. The trainer hands
  it the whole scene state and all its optimizers (lines 1190--1196 and 1519--1536), and
  not the running statistics of the runner. In the words of the specification a mutation
  adds, removes or relocates Gaussians, and the optimizers' moment buffers of the mutated
  groups are resized and re-indexed with it: new rows get fresh state, the state of removed
  rows is dropped. On shapes: rows are appended to or removed from every parameter group
  and every moment buffer; a tensor without dimensions has no rows.
\<close>

datatype mutation = AddGaussians nat | RemoveGaussians nat | RelocateGaussians

fun mutated_count :: "mutation \<Rightarrow> nat \<Rightarrow> nat" where
  "mutated_count (AddGaussians k) n = n + k"
| "mutated_count (RemoveGaussians k) n = n - k"
| "mutated_count RelocateGaussians n = n"

fun mutated_shape :: "mutation \<Rightarrow> shape \<Rightarrow> shape" where
  "mutated_shape mu [] = []"
| "mutated_shape mu (d # rest) = mutated_count mu d # rest"

definition strategy_mutation :: "mutation \<Rightarrow> train_state \<Rightarrow> train_state" where
  "strategy_mutation mu st =
     st\<lparr>st_splats := map (\<lambda>(name, sh). (name, mutated_shape mu sh)) (st_splats st),
        st_opt_state :=
          map (\<lambda>(name, cls, state). (name, cls, map (mutated_shape mu) state)) (st_opt_state st)\<rparr>"

text \<open>
  Lines 1857--1860 of \<^verbatim>\<open>run_compression\<close>: every group the decompressed state
  names is overwritten by its tensor, whose shape the compression method decides;
  \<open>decompressed\<close> is what \<^verbatim>\<open>decompress\<close> returns. The optimizers are not
  touched.
\<close>

definition overwrite_group :: "string \<times> shape \<Rightarrow> (string \<times> shape) list \<Rightarrow> py_error + (string \<times> shape) list" where
  "overwrite_group kv groups =
     (if fst kv \<in> fst ` set groups
      then Inr (map (\<lambda>(name, sh). if name = fst kv then (name, snd kv) else (name, sh)) groups)
      else Inl (KeyError (fst kv)))"

fun overwrite_groups :: "(string \<times> shape) list \<Rightarrow> (string \<times> shape) list \<Rightarrow> py_error + (string \<times> shape) list" where
  "overwrite_groups [] groups = Inr groups"
| "overwrite_groups (kv # kvs) groups =
     (case overwrite_group kv groups of
        Inl e \<Rightarrow> Inl e
      | Inr groups' \<Rightarrow> overwrite_groups kvs groups')"

definition compression_overwrite :: "(string \<times> shape) list \<Rightarrow> train_state \<Rightarrow> py_error + train_state" where
  "compression_overwrite decompressed st =
     (case overwrite_groups decompressed (st_splats st) of
        Inl e \<Rightarrow> Inl e
      | Inr groups \<Rightarrow> Inr (st\<lparr>st_splats := groups\<rparr>))"

text \<open>
  What happens to the shapes in the loop: optimizer steps, strategy mutations, and the
  overwrite of the compression at an evaluation step.
\<close>

datatype event =
    OptimizerStep "string list"
  | StrategyMutation mutation
  | CompressionOverwrite "(string \<times> shape) list"

fun apply_event :: "event \<Rightarrow> train_state \<Rightarrow> py_error + train_state" where
  "apply_event (OptimizerStep with_grad) st = optimizer_step with_grad st"
| "apply_event (StrategyMutation mu) st = Inr (strategy_mutation mu st)"
| "apply_event (CompressionOverwrite decompressed) st = compression_overwrite decompressed st"

fun run_events :: "event list \<Rightarrow> train_state \<Rightarrow> py_error + train_state" where
  "run_events [] st = Inr st"
| "run_events (e # es) st =
     (case apply_event e st of
        Inl err \<Rightarrow> Inl err
      | Inr st' \<Rightarrow> run_events es st')"

fun is_overwrite :: "event \<Rightarrow> bool" where
  "is_overwrite (CompressionOverwrite _) = True"
| "is_overwrite _ = False"

text \<open>The count the mutations of a sequence of events alone predict from a starting count.\<close>

fun count_after :: "event list \<Rightarrow> nat \<Rightarrow> nat" where
  "count_after [] n = n"
| "count_after (StrategyMutation mu # es) n = count_after es (mutated_count mu n)"
| "count_after (_ # es) n = count_after es n"

text \<open>
  \<open>has_leading_dim n sh\<close>: the tensor has a leading dimension, and it is \<open>n\<close>.
  \<open>state_tensors_share st n\<close> is the alignment in the words of the claim: every parameter
  group and every state tensor of every optimizer has leading dimension \<open>n\<close>.
  \<open>aligned st n\<close> asks it of the parameter groups and of the state tensors that have a
  dimension, the moment buffers.
\<close>

fun has_leading_dim :: "nat \<Rightarrow> shape \<Rightarrow> bool" where
  "has_leading_dim n [] = False"
| "has_leading_dim n (d # _) = (d = n)"

definition state_tensors_share :: "train_state \<Rightarrow> nat \<Rightarrow> bool" where
  "state_tensors_share st n =
     (list_all (\<lambda>(name, sh). has_leading_dim n sh) (st_splats st)
      \<and> list_all (\<lambda>(name, cls, state). list_all (has_leading_dim n) state) (st_opt_state st))"

definition aligned :: "train_state \<Rightarrow> nat \<Rightarrow> bool" where
  "aligned st n =
     (list_all (\<lambda>(name, sh). has_leading_dim n sh) (st_splats st)
      \<and> list_all (\<lambda>(name, cls, state). list_all (\<lambda>s. s = [] \<or> has_leading_dim n s) state)
           (st_opt_state st))"

text \<open>
  The invariant of the loop: alignment on \<open>n\<close>; every optimizer belongs to a group and
  its state tensors with a dimension have the shape of the group; and the group
  \<open>means\<close>, from which the count is read, is there.
\<close>

definition count_inv :: "train_state \<Rightarrow> nat \<Rightarrow> bool" where
  "count_inv st n \<longleftrightarrow>
     aligned st n
   \<and> ''means'' \<in> fst ` set (st_splats st)
   \<and> list_all (\<lambda>(name, cls, state).
                 case map_of (st_splats st) name of
                   None \<Rightarrow> False
                 | Some sh \<Rightarrow> list_all (\<lambda>s. s = [] \<or> s = sh) state)
        (st_opt_state st)"

text \<open>
  Events to run: a step in which every group but the two adjustment groups has a gradient,
  three Gaussians added, a second step, one Gaussian removed.
\<close>

definition example_events :: "event list" where
  "example_events =
     [OptimizerStep [''means'', ''scales'', ''quats'', ''opacities'', ''sh0'', ''shN''],
      StrategyMutation (AddGaussians 3),
      OptimizerStep [''means'', ''scales'', ''quats'', ''opacities'', ''sh0'', ''shN''],
      StrategyMutation (RemoveGaussians 1)]"

chapter \<open>Properties\<close>

section \<open>Optimizer construction\<close>

lemma make_optimizers_Inr:
  "make_optimizers cls BS ps = Inr os \<Longrightarrow> ps \<noteq> [] \<Longrightarrow>
     0 < BS \<and> BS \<le> 10 \<and> os = map (make_optimizer cls BS) ps"
  by (auto simp: make_optimizers_def split: if_splits)

lemma colour_params_Inr:
  "colour_params a N = Inr cs \<Longrightarrow> feature_dim a = None \<and> cs = [(''sh0'', [N, 1, 3], sh0_lr a),
               (''shN'', [N, (sh_degree a + 1) ^ 2 - 1, 3], shN_lr a),
               (''adjust_k'', [N, 1, 3], sh0_lr a),
               (''adjust_b'', [N, 1, 3], sh0_lr a)]"
  by (auto simp: colour_params_def split: option.splits)

lemma create_splats_Inr:
  assumes "create_splats_with_optimizers a = Inr (splats, optimizers)"
  obtains P cs where "init_points a = Inr P" "0 < world_size a" 
     "colour_params a (strided_rows P (world_rank a) (world_size a)) = Inr cs"
     "0 < batch_size a * int (world_size a)"
     "splats = map (\<lambda>(n, v, _). (n, v)) (geometry_params a (strided_rows P (world_rank a) (world_size a)) @ cs)"
     "optimizers = map (make_optimizer (optimizer_class_of a) (batch_size a * int (world_size a))) (geometry_params a (strided_rows P (world_rank a) (world_size a)) @ cs)"
proof -
  from assms obtain P where P: "init_points a = Inr P"
    by (auto simp: create_splats_with_optimizers_def split: sum.splits)
  from assms P have w: "0 < world_size a"
    by (auto simp: create_splats_with_optimizers_def split: if_splits)
  define N where "N = strided_rows P (world_rank a) (world_size a)"
  from assms P w obtain cs where cs: "colour_params a N = Inr cs"
    by (auto simp: create_splats_with_optimizers_def N_def Let_def split: sum.splits)
  from assms P w cs have m: "make_optimizers (optimizer_class_of a) (batch_size a * int (world_size a)) (geometry_params a N @ cs) = Inr optimizers"
    and s: "splats = map (\<lambda>(n, v, _). (n, v)) (geometry_params a N @ cs)"
    by (auto simp: create_splats_with_optimizers_def N_def Let_def split: sum.splits)
  have ne: "geometry_params a N @ cs \<noteq> []" by (simp add: geometry_params_def)
  from make_optimizers_Inr[OF m ne] P w cs s show thesis
    using that unfolding N_def by blast
qed

text \<open>
  C5. Every parameter group gets one optimizer, constructed with its base learning rate
  times \<open>sqrt BS\<close>, with epsilon \<open>1e-15 / sqrt BS\<close> and with betas
  \<open>(1 - BS * (1 - 0.9), 1 - BS * (1 - 0.999))\<close>, where \<open>BS = batch_size * world_size\<close>;
  a second call that differs in \<open>batch_size\<close> and \<open>world_size\<close> only, with the same
  product, constructs the same optimizers.
\<close>

theorem optimizer_batch_scaling:
  assumes "create_splats_with_optimizers a = Inr (splats, optimizers)"
  shows "map (\<lambda>(n, opt). (n, opt_lr opt)) optimizers =
           [(''means'', means_lr a * scene_scale a * sqrt (real_of_int (batch_size a * int (world_size a)))),
            (''scales'', scales_lr a * sqrt (real_of_int (batch_size a * int (world_size a)))),
            (''quats'', quats_lr a * sqrt (real_of_int (batch_size a * int (world_size a)))),
            (''opacities'', opacities_lr a * sqrt (real_of_int (batch_size a * int (world_size a)))),
            (''sh0'', sh0_lr a * sqrt (real_of_int (batch_size a * int (world_size a)))),
            (''shN'', shN_lr a * sqrt (real_of_int (batch_size a * int (world_size a)))),
            (''adjust_k'', sh0_lr a * sqrt (real_of_int (batch_size a * int (world_size a)))),
            (''adjust_b'', sh0_lr a * sqrt (real_of_int (batch_size a * int (world_size a))))]
       \<and> (\<forall>(n, opt) \<in> set optimizers.
             opt_eps opt = (1 / 10 ^ 15) / sqrt (real_of_int (batch_size a * int (world_size a)))
           \<and> opt_betas opt =
               (1 - real_of_int (batch_size a * int (world_size a)) * (1 - 0.9),
                1 - real_of_int (batch_size a * int (world_size a)) * (1 - 0.999)))
       \<and> map fst optimizers = map fst splats
       \<and> (\<forall>b w splats' optimizers'.
             b * int w = batch_size a * int (world_size a)
             \<longrightarrow> create_splats_with_optimizers (a\<lparr>batch_size := b, world_size := w\<rparr>) = Inr (splats', optimizers')
             \<longrightarrow> optimizers' = optimizers)"
proof -
  from assms obtain P cs where
    cs: "colour_params a (strided_rows P (world_rank a) (world_size a)) = Inr cs" and
    o: "optimizers = map (make_optimizer (optimizer_class_of a) (batch_size a * int (world_size a)))
          (geometry_params a (strided_rows P (world_rank a) (world_size a)) @ cs)" and
    s: "splats = map (\<lambda>(n, v, _). (n, v)) (geometry_params a (strided_rows P (world_rank a) (world_size a)) @ cs)"
    by (rule create_splats_Inr)
  note c = colour_params_Inr[OF cs]
  have 1: "map (\<lambda>(n, opt). (n, opt_lr opt)) optimizers =
           [(''means'', means_lr a * scene_scale a * sqrt (real_of_int (batch_size a * int (world_size a)))),
            (''scales'', scales_lr a * sqrt (real_of_int (batch_size a * int (world_size a)))),
            (''quats'', quats_lr a * sqrt (real_of_int (batch_size a * int (world_size a)))),
            (''opacities'', opacities_lr a * sqrt (real_of_int (batch_size a * int (world_size a)))),
            (''sh0'', sh0_lr a * sqrt (real_of_int (batch_size a * int (world_size a)))),
            (''shN'', shN_lr a * sqrt (real_of_int (batch_size a * int (world_size a)))),
            (''adjust_k'', sh0_lr a * sqrt (real_of_int (batch_size a * int (world_size a)))),
            (''adjust_b'', sh0_lr a * sqrt (real_of_int (batch_size a * int (world_size a))))]"
    unfolding o using c by (simp add: geometry_params_def make_optimizer_def)
  have 2: "\<forall>(n, opt) \<in> set optimizers.
             opt_eps opt = (1 / 10 ^ 15) / sqrt (real_of_int (batch_size a * int (world_size a)))
           \<and> opt_betas opt =
               (1 - real_of_int (batch_size a * int (world_size a)) * (1 - 0.9),
                1 - real_of_int (batch_size a * int (world_size a)) * (1 - 0.999))"
    unfolding o by (auto simp: make_optimizer_def)
  have 3: "map fst optimizers = map fst splats"
    unfolding o s by (auto simp: make_optimizer_def)
  have 4: "optimizers' = optimizers"
    if eq: "b * int w = batch_size a * int (world_size a)"
    and ok: "create_splats_with_optimizers (a\<lparr>batch_size := b, world_size := w\<rparr>) = Inr (splats', optimizers')"
    for b w splats' optimizers'
  proof -
    let ?a = "a\<lparr>batch_size := b, world_size := w\<rparr>"
    from ok obtain P' cs' where
      cs': "colour_params ?a (strided_rows P' (world_rank ?a) (world_size ?a)) = Inr cs'" and
      o': "optimizers' = map (make_optimizer (optimizer_class_of ?a) (batch_size ?a * int (world_size ?a)))
          (geometry_params ?a (strided_rows P' (world_rank ?a) (world_size ?a)) @ cs')"
      by (rule create_splats_Inr)
    note c' = colour_params_Inr[OF cs']
    show ?thesis
      unfolding o o' using c c' eq
      by (simp add: geometry_params_def make_optimizer_def optimizer_class_of_def)
  qed
  from 1 2 3 4 show ?thesis by blast
qed

theorem optimizer_batch_scaling_witness:
  "\<exists>splats optimizers splats'.
      create_splats_with_optimizers example_args = Inr (splats, optimizers)
    \<and> 4 * int 1 = batch_size example_args * int (world_size example_args)
    \<and> create_splats_with_optimizers (example_args\<lparr>batch_size := 4, world_size := 1\<rparr>) = Inr (splats', optimizers)
    \<and> map (\<lambda>(n, opt). (n, opt_lr opt)) optimizers =
        [(''means'', 2), (''scales'', 4), (''quats'', 8), (''opacities'', 6),
         (''sh0'', 10), (''shN'', 12), (''adjust_k'', 10), (''adjust_b'', 10)]
    \<and> list_all (\<lambda>(n, opt). opt_eps opt = (1 / 10 ^ 15) / 2
                            \<and> opt_betas opt = (1 - 4 * (1 - 0.9), 1 - 4 * (1 - 0.999))) optimizers"
proof -
  obtain splats optimizers where a: "create_splats_with_optimizers example_args = Inr (splats, optimizers)"
    by (simp add: create_splats_with_optimizers_def example_args_def init_points_def colour_params_def
        make_optimizers_def geometry_params_def Let_def)
  obtain splats' optimizers' where
    b: "create_splats_with_optimizers (example_args\<lparr>batch_size := 4, world_size := 1\<rparr>) = Inr (splats', optimizers')"
    by (simp add: create_splats_with_optimizers_def example_args_def init_points_def colour_params_def
        make_optimizers_def geometry_params_def Let_def)
  have e: "4 * int 1 = batch_size example_args * int (world_size example_args)"
    by (simp add: example_args_def)
  note t = optimizer_batch_scaling[OF a]
  from t e b have same: "optimizers' = optimizers" by blast
  have lr: "map (\<lambda>(n, opt). (n, opt_lr opt)) optimizers =
        [(''means'', 2), (''scales'', 4), (''quats'', 8), (''opacities'', 6),
         (''sh0'', 10), (''shN'', 12), (''adjust_k'', 10), (''adjust_b'', 10)]"
    using t by (simp add: example_args_def)
  have ep: "list_all (\<lambda>(n, opt). opt_eps opt = (1 / 10 ^ 15) / 2
                            \<and> opt_betas opt = (1 - 4 * (1 - 0.9), 1 - 4 * (1 - 0.999))) optimizers"
    using t by (simp add: example_args_def list_all_iff)
  have b': "create_splats_with_optimizers (example_args\<lparr>batch_size := 4, world_size := 1\<rparr>) = Inr (splats', optimizers)"
    using b same by simp
  show ?thesis
    by (rule exI[of _ splats], rule exI[of _ optimizers], rule exI[of _ splats'])
       (intro conjI a e b' lr ep)
qed

section \<open>Tensor operations\<close>

lemma collect_all_Inr:
  "(\<And>z. z \<in> set zs \<Longrightarrow> h z = Inr (k z)) \<Longrightarrow> collect (map h zs) = Inr (map k zs)"
  by (induction zs) simp_all

lemma broadcast_dim_same_length:
  assumes "length xs = length ys"
    and "\<And>x y. (x, y) \<in> set (zip xs ys) \<Longrightarrow> g x y = Inr (k x y)"
  shows "broadcast_dim g xs ys = Inr (map2 k xs ys)"
proof -
  have "collect (map (\<lambda>(x, y). g x y) (zip xs ys)) = Inr (map (\<lambda>(x, y). k x y) (zip xs ys))"
    by (rule collect_all_Inr) (use assms(2) in auto)
  then show ?thesis using assms(1) by (simp add: broadcast_dim_def)
qed

lemma broadcast_dim_total:
  "length xs = length ys \<Longrightarrow> broadcast_dim (\<lambda>a b. Inr (f a b)) xs ys = Inr (map2 f xs ys)"
  by (rule broadcast_dim_same_length) simp_all

lemma broadcast_dim_left_one:
  "length ys \<noteq> 1 \<Longrightarrow> broadcast_dim (\<lambda>a b. Inr (f a b)) [x] ys = Inr (map (f x) ys)"
  by (simp add: broadcast_dim_def collect_all_Inr)

lemma same_shape_length: "same_shape s t \<Longrightarrow> length s = length t"
  unfolding same_shape_def by (rule map_eq_imp_length_eq)

lemma same_shape_nth: "same_shape s t \<Longrightarrow> i < length t \<Longrightarrow> length (s ! i) = length (t ! i)"
proof -
  assume a: "same_shape s t" and i: "i < length t"
  have "length s = length t" using a by (rule same_shape_length)
  with a i have "map length s ! i = map length t ! i" by (simp add: same_shape_def)
  with i \<open>length s = length t\<close> show ?thesis by simp
qed

lemma same_shape_sym: "same_shape s t \<Longrightarrow> same_shape t s"
  by (simp add: same_shape_def)

lemma same_shape_trans: "same_shape s t \<Longrightarrow> same_shape t u \<Longrightarrow> same_shape s u"
  by (simp add: same_shape_def)

lemma same_shape_zip:
  assumes "same_shape s t" "(p, q) \<in> set (zip s t)"
  shows "length p = length q"
proof -
  from assms(2) obtain i where i: "i < length (zip s t)" "zip s t ! i = (p, q)"
    by (auto simp: in_set_conv_nth)
  then have "p = s ! i" "q = t ! i" "i < length t" by auto
  then show ?thesis using same_shape_nth[OF assms(1)] by simp
qed

lemma tensor_op_same_shape:
  assumes "same_shape s t"
  shows "tensor_op f s t = Inr (pointwise2 f s t)"
proof -
  have l: "length s = length t" using assms by (rule same_shape_length)
  have "broadcast_dim (broadcast_dim (\<lambda>a b. Inr (f a b))) s t = Inr (map2 (map2 f) s t)"
    using l
  proof (rule broadcast_dim_same_length)
    fix p q assume "(p, q) \<in> set (zip s t)"
    then have "length p = length q" using assms by (rule same_shape_zip[rotated])
    then show "broadcast_dim (\<lambda>a b. Inr (f a b)) p q = Inr (map2 f p q)"
      by (rule broadcast_dim_total)
  qed
  then show ?thesis by (simp add: tensor_op_def pointwise2_def)
qed

lemma pointwise_nth:
  "i < length t \<Longrightarrow> c < length (t ! i) \<Longrightarrow> pointwise f t ! i ! c = f (t ! i ! c)"
  by (simp add: pointwise_def)

lemma pointwise_shape: "same_shape (pointwise f t) t"
  by (simp add: pointwise_def same_shape_def comp_def)

lemma pointwise2_nth:
  assumes "same_shape s t" "i < length s" "c < length (s ! i)"
  shows "pointwise2 f s t ! i ! c = f (s ! i ! c) (t ! i ! c)"
proof -
  have l: "length s = length t" using assms(1) by (rule same_shape_length)
  have li: "length (s ! i) = length (t ! i)" using assms(1,2) l by (simp add: same_shape_nth)
  show ?thesis using assms l li by (simp add: pointwise2_def)
qed

lemma pointwise2_shape:
  assumes "same_shape s t" shows "same_shape (pointwise2 f s t) s"
proof -
  have l: "length s = length t" using assms by (rule same_shape_length)
  have "map length (pointwise2 f s t) = map length s"
  proof (rule nth_equalityI)
    show "length (map length (pointwise2 f s t)) = length (map length s)"
      using l by (simp add: pointwise2_def)
    fix i assume "i < length (map length (pointwise2 f s t))"
    then have i: "i < length s" using l by (simp add: pointwise2_def)
    have "length (s ! i) = length (t ! i)" using assms i l by (simp add: same_shape_nth)
    then show "map length (pointwise2 f s t) ! i = map length s ! i"
      using i l by (simp add: pointwise2_def)
  qed
  then show ?thesis by (simp add: same_shape_def)
qed

lemma pointwise_clamp_bounds:
  "\<forall>p \<in> set (pointwise (clamp 0 1) t). \<forall>x \<in> set p. 0 \<le> x \<and> x \<le> 1"
  by (auto simp: pointwise_def clamp_def)

lemma pointwise_floor_bound:
  "\<forall>p \<in> set (pointwise (clamp_min lo) t). \<forall>x \<in> set p. lo \<le> x"
  by (auto simp: pointwise_def clamp_min_def)

lemma finfo_eps_pos: "0 < finfo_eps dt"
  by (cases dt) simp_all

text \<open>One channel against three, at the same positions: the one is used for each of the three.\<close>

lemma tensor_op_one_three:
  assumes "length s = length t"
    and "\<And>i. i < length t \<Longrightarrow> length (s ! i) = 1 \<and> length (t ! i) = 3"
  shows "tensor_op f s t = Inr (map2 (\<lambda>p q. map (f (hd p)) q) s t)"
proof -
  have "broadcast_dim (broadcast_dim (\<lambda>a b. Inr (f a b))) s t
        = Inr (map2 (\<lambda>p q. map (f (hd p)) q) s t)"
    using assms(1)
  proof (rule broadcast_dim_same_length)
    fix p q assume "(p, q) \<in> set (zip s t)"
    then obtain i where i: "i < length (zip s t)" "zip s t ! i = (p, q)"
      by (auto simp: in_set_conv_nth)
    then have pq: "p = s ! i" "q = t ! i" "i < length t" by auto
    with assms(2) have lp: "length p = 1" and lq: "length q = 3" by auto
    from lp obtain x where p: "p = [x]" by (cases p) auto
    show "broadcast_dim (\<lambda>a b. Inr (f a b)) p q = Inr (map (f (hd p)) q)"
      unfolding p using lq by (simp add: broadcast_dim_left_one)
  qed
  then show ?thesis by (simp add: tensor_op_def)
qed

section \<open>Retinex decomposition\<close>

text \<open>The decomposition in RGB mode, when the network answers in the shape of its input.\<close>

lemma get_retinex_output_rgb:
  assumes "same_shape (log_illumination_map (retinex_net env px (retinex_embeds env ids))) px"
  shows "get_retinex_output env False dt ids px =
     Inr \<lparr>input_image_for_net = px,
          illumination_map =
            pointwise (clamp_min (1 / 10 ^ 5))
              (pointwise exp (log_illumination_map (retinex_net env px (retinex_embeds env ids)))),
          reflectance_map =
            pointwise (clamp 0 1)
              (pointwise exp
                 (pointwise2 (-) (pointwise (\<lambda>x. ln (x + finfo_eps dt)) px)
                    (log_illumination_map (retinex_net env px (retinex_embeds env ids))))),
          out_alpha = alpha (retinex_net env px (retinex_embeds env ids)),
          out_beta = beta (retinex_net env px (retinex_embeds env ids)),
          out_local_exposure = local_exposure (retinex_net env px (retinex_embeds env ids)),
          out_weights = weights (retinex_net env px (retinex_embeds env ids))\<rparr>"
proof -
  let ?L = "log_illumination_map (retinex_net env px (retinex_embeds env ids))"
  have "same_shape (pointwise (\<lambda>x. ln (x + finfo_eps dt)) px) ?L"
    using assms by (meson pointwise_shape same_shape_sym same_shape_trans)
  then have "tensor_op (-) (pointwise (\<lambda>x. ln (x + finfo_eps dt)) px) ?L
      = Inr (pointwise2 (-) (pointwise (\<lambda>x. ln (x + finfo_eps dt)) px) ?L)"
    by (rule tensor_op_same_shape)
  then show ?thesis by (simp add: get_retinex_output_def Let_def)
qed

text \<open>The same in HSV mode, for pixels of three channels.\<close>

lemma channels_length:
  "list_all (\<lambda>p. length p = 3) t \<Longrightarrow> lo < hi \<Longrightarrow> hi \<le> 3 \<Longrightarrow>
   list_all (\<lambda>p. length p = hi - lo) (channels lo hi t)"
  by (auto simp: channels_def list_all_iff)

lemma get_retinex_output_hsv:
  assumes three: "list_all (\<lambda>p. length p = 3) px"
    and hsv3: "list_all (\<lambda>p. length p = 3) (map (rgb_to_hsv env) px)"
    and shape: "same_shape
        (log_illumination_map
           (retinex_net env (channels 2 3 (map (rgb_to_hsv env) px)) (retinex_embeds env ids)))
        (channels 2 3 (map (rgb_to_hsv env) px))"
  shows "get_retinex_output env True dt ids px =
     Inr \<lparr>input_image_for_net = channels 2 3 (map (rgb_to_hsv env) px),
          illumination_map =
            pointwise (clamp_min (1 / 10 ^ 5))
              (pointwise exp (log_illumination_map
                 (retinex_net env (channels 2 3 (map (rgb_to_hsv env) px)) (retinex_embeds env ids)))),
          reflectance_map =
            pointwise (clamp 0 1)
              (map (hsv_to_rgb env)
                 (map (\<lambda>(x, y, z). x @ y @ z)
                    (zip (channels 0 1 (map (rgb_to_hsv env) px))
                       (zip (channels 1 2 (map (rgb_to_hsv env) px))
                          (pointwise exp
                             (pointwise2 (-)
                                (pointwise (\<lambda>x. ln (x + finfo_eps dt))
                                   (channels 2 3 (map (rgb_to_hsv env) px)))
                                (log_illumination_map
                                   (retinex_net env (channels 2 3 (map (rgb_to_hsv env) px))
                                      (retinex_embeds env ids))))))))),
          out_alpha = alpha (retinex_net env (channels 2 3 (map (rgb_to_hsv env) px)) (retinex_embeds env ids)),
          out_beta = beta (retinex_net env (channels 2 3 (map (rgb_to_hsv env) px)) (retinex_embeds env ids)),
          out_local_exposure =
            local_exposure (retinex_net env (channels 2 3 (map (rgb_to_hsv env) px)) (retinex_embeds env ids)),
          out_weights =
            weights (retinex_net env (channels 2 3 (map (rgb_to_hsv env) px)) (retinex_embeds env ids))\<rparr>"
proof -
  let ?H = "map (rgb_to_hsv env) px"
  let ?W = "channels 2 3 ?H"
  let ?L = "log_illumination_map (retinex_net env ?W (retinex_embeds env ids))"
  let ?LI = "pointwise (\<lambda>x. ln (x + finfo_eps dt)) ?W"
  let ?R = "pointwise exp (pointwise2 (-) ?LI ?L)"
  have k: "kornia_color (rgb_to_hsv env) px = Inr ?H"
    using three by (simp add: kornia_color_def)
  have s1: "same_shape ?LI ?L"
    using shape by (meson pointwise_shape same_shape_sym same_shape_trans)
  then have t: "tensor_op (-) ?LI ?L = Inr (pointwise2 (-) ?LI ?L)"
    by (rule tensor_op_same_shape)
  have sR: "same_shape ?R ?W"
    using s1 by (meson pointwise2_shape pointwise_shape same_shape_trans)
  have lW: "length ?W = length px" by (simp add: channels_def)
  have lR: "length ?R = length px" using same_shape_length[OF sR] lW by simp
  have c: "cat3 (channels 0 1 ?H) (channels 1 2 ?H) ?R =
      Inr (map (\<lambda>(x, y, z). x @ y @ z) (zip (channels 0 1 ?H) (zip (channels 1 2 ?H) ?R)))"
    using lR by (simp add: cat3_def channels_def)
  have "length p = 3"
    if "p \<in> set (map (\<lambda>(x, y, z). x @ y @ z) (zip (channels 0 1 ?H) (zip (channels 1 2 ?H) ?R)))" for p
  proof -
    from that obtain i where i: "i < length px"
      and p: "p = channels 0 1 ?H ! i @ channels 1 2 ?H ! i @ ?R ! i"
      using lR by (auto simp: in_set_conv_nth channels_def)
    have h: "length (?H ! i) = 3" using hsv3 i by (simp add: list_all_length)
    have "length (?R ! i) = length (?W ! i)" using sR i lW by (simp add: same_shape_nth)
    also have "\<dots> = 1" using h i by (simp add: channels_def)
    finally show ?thesis using h i by (simp add: p channels_def)
  qed
  then have r: "kornia_color (hsv_to_rgb env)
        (map (\<lambda>(x, y, z). x @ y @ z) (zip (channels 0 1 ?H) (zip (channels 1 2 ?H) ?R)))
      = Inr (map (hsv_to_rgb env)
          (map (\<lambda>(x, y, z). x @ y @ z) (zip (channels 0 1 ?H) (zip (channels 1 2 ?H) ?R))))"
    unfolding kornia_color_def list_all_iff by simp
  show ?thesis
    using k t c r unfolding get_retinex_output_def Let_def by simp
qed

lemma exp_ln_diff:
  fixes y l :: real
  shows "0 < y \<Longrightarrow> exp (ln y - l) = y / exp l"
  by (simp add: exp_diff)

lemma clamp_max: "clamp 0 1 (max a b) = max (clamp 0 1 a) (clamp 0 1 b)"
  by (auto simp: clamp_def max_def min_def)

lemma max_scaled:
  fixes k :: real
  assumes "0 \<le> k"
  shows "max (k * a) (max (k * b) (k * c)) = k * max a (max b c)"
proof (cases "k = 0")
  case False
  with assms have "0 < k" by simp
  then show ?thesis by (simp add: max_def mult_le_cancel_left_pos)
qed simp

lemma clamp_min_pos: "0 < clamp_min (1 / 10 ^ 5) x"
  by (simp add: clamp_min_def max_def)

lemma no_clamp_product:
  assumes "0 < y" "1 / 10 ^ 5 \<le> exp l" "y \<le> exp l"
  shows "clamp_min (1 / 10 ^ 5) (exp l) * clamp 0 1 (y / exp l) = y"
proof -
  have "y / exp l \<le> 1" using assms(3) by (simp add: divide_le_eq)
  moreover have "0 \<le> y / exp l" using assms(1) by simp
  ultimately have "clamp 0 1 (y / exp l) = y / exp l" by (simp add: clamp_def)
  moreover have "clamp_min (1 / 10 ^ 5) (exp l) = exp l"
    using assms(2) by (simp add: clamp_min_def)
  ultimately show ?thesis by simp
qed

text \<open>The product of the two maps in RGB mode.\<close>

lemma rgb_product:
  fixes L px :: image
  assumes shape: "same_shape L px"
    and nonneg: "\<forall>p \<in> set px. \<forall>x \<in> set p. 0 \<le> x"
    and eps: "0 < eps"
  defines "I \<equiv> pointwise (clamp_min (1 / 10 ^ 5)) (pointwise exp L)"
  defines "R \<equiv> pointwise (clamp 0 1)
                 (pointwise exp (pointwise2 (-) (pointwise (\<lambda>x. ln (x + eps)) px) L))"
  shows "tensor_op (*) I R = Inr (pointwise2 (*) I R)"
    and "same_shape (pointwise2 (*) I R) px"
    and "\<forall>i < length px. \<forall>c < length (px ! i).
           pointwise2 (*) I R ! i ! c =
             clamp_min (1 / 10 ^ 5) (exp (L ! i ! c)) * clamp 0 1 ((px ! i ! c + eps) / exp (L ! i ! c))"
proof -
  have l: "length L = length px" using shape by (rule same_shape_length)
  have li: "length (L ! i) = length (px ! i)" if "i < length px" for i
    using shape that by (rule same_shape_nth)
  have mI: "map length I = map length px"
    using shape by (simp add: I_def pointwise_def same_shape_def comp_def)
  have "map length R = map length px"
  proof (rule nth_equalityI)
    show "length (map length R) = length (map length px)"
      using l by (simp add: R_def pointwise_def pointwise2_def)
    fix i assume "i < length (map length R)"
    then have i: "i < length px" using l by (simp add: R_def pointwise_def pointwise2_def)
    show "map length R ! i = map length px ! i"
      using i l li[OF i] by (simp add: R_def pointwise_def pointwise2_def)
  qed
  with mI have sIR: "same_shape I R" and sI: "same_shape I px"
    by (simp_all add: same_shape_def)
  show "tensor_op (*) I R = Inr (pointwise2 (*) I R)"
    using sIR by (rule tensor_op_same_shape)
  show "same_shape (pointwise2 (*) I R) px"
    using pointwise2_shape[OF sIR] sI by (rule same_shape_trans)
  show "\<forall>i < length px. \<forall>c < length (px ! i).
           pointwise2 (*) I R ! i ! c =
             clamp_min (1 / 10 ^ 5) (exp (L ! i ! c)) * clamp 0 1 ((px ! i ! c + eps) / exp (L ! i ! c))"
  proof (intro allI impI)
    fix i c assume i: "i < length px" and c: "c < length (px ! i)"
    have "px ! i \<in> set px" using i by simp
    moreover have "px ! i ! c \<in> set (px ! i)" using c by simp
    ultimately have "0 \<le> px ! i ! c" using nonneg by blast
    then have pos: "0 < px ! i ! c + eps" using eps by simp
    have "pointwise2 (*) I R ! i ! c =
        clamp_min (1 / 10 ^ 5) (exp (L ! i ! c)) * clamp 0 1 (exp (ln (px ! i ! c + eps) - L ! i ! c))"
      using i c l li[OF i] by (simp add: I_def R_def pointwise_def pointwise2_def)
    then show "pointwise2 (*) I R ! i ! c =
        clamp_min (1 / 10 ^ 5) (exp (L ! i ! c)) * clamp 0 1 ((px ! i ! c + eps) / exp (L ! i ! c))"
      by (simp only: exp_ln_diff[OF pos])
  qed
qed

text \<open>The product of the two maps in HSV mode, and its value channel.\<close>

lemma length_three: "length p = 3 \<Longrightarrow> \<exists>a b c. p = [a, b, c]"
  by (auto simp: numeral_3_eq_3 length_Suc_conv)

lemma length_one: "length p = Suc 0 \<Longrightarrow> p = [p ! 0]"
  by (auto simp: length_Suc_conv)

lemma hsv_three:
  assumes three: "list_all (\<lambda>p. length p = 3) px" and laws: "hsv_value_laws env"
  shows "list_all (\<lambda>p. length p = 3) (map (rgb_to_hsv env) px)"
proof -
  have "length (rgb_to_hsv env p) = 3" if "p \<in> set px" for p
  proof -
    from three that have "length p = 3" by (simp add: list_all_iff)
    then obtain r g b where p: "p = [r, g, b]" using length_three by blast
    from laws obtain h s where "rgb_to_hsv env [r, g, b] = [h, s, max r (max g b)]"
      unfolding hsv_value_laws_def by blast
    then show ?thesis by (simp add: p)
  qed
  then show ?thesis by (simp add: list_all_iff)
qed

lemma hsv_product:
  fixes env :: "('id, 'e, 't) retinex_env" and L px :: image
  defines "H \<equiv> map (rgb_to_hsv env) px"
  defines "W \<equiv> channels 2 3 H"
  defines "I \<equiv> pointwise (clamp_min (1 / 10 ^ 5)) (pointwise exp L)"
  assumes three: "list_all (\<lambda>p. length p = 3) px"
    and laws: "hsv_value_laws env"
    and nonneg: "\<forall>p \<in> set px. \<forall>x \<in> set p. 0 \<le> x"
    and eps: "0 < eps"
    and shape: "same_shape L W"
    and R: "R = pointwise (clamp 0 1)
              (map (hsv_to_rgb env)
                 (map (\<lambda>(x, y, z). x @ y @ z)
                    (zip (channels 0 1 H)
                       (zip (channels 1 2 H)
                          (pointwise exp (pointwise2 (-) (pointwise (\<lambda>x. ln (x + eps)) W) L))))))"
  shows "\<exists>product. tensor_op (*) I R = Inr product \<and> length product = length px
           \<and> (\<forall>i < length px.
                 length (W ! i) = 1 \<and> 0 \<le> W ! i ! 0
               \<and> channels 2 3 (map (rgb_to_hsv env) product) ! i =
                   [clamp_min (1 / 10 ^ 5) (exp (L ! i ! 0))
                      * clamp 0 1 ((W ! i ! 0 + eps) / exp (L ! i ! 0))])"
proof -
  let ?D = "pointwise exp (pointwise2 (-) (pointwise (\<lambda>x. ln (x + eps)) W) L)"
  let ?k = "\<lambda>i. clamp_min (1 / 10 ^ 5) (exp (L ! i ! 0))"
  let ?v = "\<lambda>i. (W ! i ! 0 + eps) / exp (L ! i ! 0)"
  have lH: "length H = length px" by (simp add: H_def)
  have lW: "length W = length px" by (simp add: W_def channels_def lH)
  have lL: "length L = length px" using same_shape_length[OF shape] lW by simp
  have lD: "length ?D = length px" by (simp add: pointwise_def pointwise2_def lW lL)
  have lI: "length I = length px" by (simp add: I_def pointwise_def lL)
  have lD2: "length (pointwise2 (-) (pointwise (\<lambda>x. ln (x + eps)) W) L) = length px"
    by (simp add: pointwise_def pointwise2_def lW lL)
  have lp: "length (pointwise f t) = length t" for f t by (simp add: pointwise_def)
  have lR: "length R = length px"
    by (simp add: R lp channels_def lH lD2)
  have at: "\<exists>h s r g b. H ! i = [h, s, W ! i ! 0] \<and> W ! i = [W ! i ! 0] \<and> L ! i = [L ! i ! 0]
         \<and> hsv_to_rgb env [h, s, ?v i] = [r, g, b] \<and> max r (max g b) = ?v i
         \<and> R ! i = [clamp 0 1 r, clamp 0 1 g, clamp 0 1 b] \<and> I ! i = [?k i]
         \<and> 0 \<le> W ! i ! 0"
    if i: "i < length px" for i
  proof -
    from three i have "length (px ! i) = 3" by (simp add: list_all_length)
    then obtain r g b where p: "px ! i = [r, g, b]" using length_three by blast
    have "px ! i \<in> set px" using i by simp
    with nonneg p have rgb: "0 \<le> r" "0 \<le> g" "0 \<le> b" by auto
    from laws obtain h s where hs: "rgb_to_hsv env [r, g, b] = [h, s, max r (max g b)]"
      and "0 \<le> r \<and> 0 \<le> g \<and> 0 \<le> b \<longrightarrow> 0 \<le> s"
      unfolding hsv_value_laws_def by blast
    with rgb have s: "0 \<le> s" by simp
    have Hi: "H ! i = [h, s, max r (max g b)]" using i p hs by (simp add: H_def)
    have Wi: "W ! i = [max r (max g b)]" using i Hi lH by (simp add: W_def channels_def)
    have V: "0 \<le> W ! i ! 0" using Wi rgb by simp
    have "length (L ! i) = length (W ! i)" using shape i lW by (simp add: same_shape_nth)
    then have Li: "L ! i = [L ! i ! 0]" using Wi by (simp add: length_one)
    have pos: "0 < W ! i ! 0 + eps" using V eps by simp
    have "?D ! i = map exp (map2 (-) (map (\<lambda>x. ln (x + eps)) (W ! i)) (L ! i))"
      using i lW lL by (simp add: pointwise_def pointwise2_def)
    also have "\<dots> = map exp (map2 (-) (map (\<lambda>x. ln (x + eps)) [W ! i ! 0]) [L ! i ! 0])"
      using Wi Li by simp
    also have "\<dots> = [exp (ln (W ! i ! 0 + eps) - L ! i ! 0)]" by simp
    finally have Di: "?D ! i = [?v i]" by (simp only: exp_ln_diff[OF pos])
    have v: "0 \<le> ?v i" using pos by simp
    from laws s v obtain r' g' b' where rgb2: "hsv_to_rgb env [h, s, ?v i] = [r', g', b']"
      and mx: "max r' (max g' b') = ?v i"
      unfolding hsv_value_laws_def by blast
    have "R ! i = map (clamp 0 1) (hsv_to_rgb env (take 1 (H ! i) @ take 1 (drop 1 (H ! i)) @ ?D ! i))"
      using i lH lD by (simp add: R pointwise_def channels_def)
    also have "\<dots> = [clamp 0 1 r', clamp 0 1 g', clamp 0 1 b']"
      by (simp add: Hi Di rgb2)
    finally have Ri: "R ! i = [clamp 0 1 r', clamp 0 1 g', clamp 0 1 b']" .
    have "I ! i = map (clamp_min (1 / 10 ^ 5)) (map exp (L ! i))"
      using i lL by (simp add: I_def pointwise_def)
    also have "\<dots> = map (clamp_min (1 / 10 ^ 5)) (map exp [L ! i ! 0])" using Li by simp
    finally have Ii: "I ! i = [?k i]" by simp
    have Hi2: "H ! i = [h, s, W ! i ! 0]" using Hi Wi by simp
    have Wi2: "W ! i = [W ! i ! 0]" using Wi by simp
    show ?thesis
      apply (rule exI[of _ h], rule exI[of _ s])
      apply (rule exI[of _ r'], rule exI[of _ g'], rule exI[of _ b'])
      using Hi2 Wi2 Li rgb2 mx Ri Ii V by (intro conjI)
  qed
  have "tensor_op (*) I R = Inr (map2 (\<lambda>p q. map ((*) (hd p)) q) I R)"
  proof (rule tensor_op_one_three)
    show "length I = length R" by (simp add: lI lR)
    fix i assume "i < length R"
    then have "i < length px" by (simp add: lR)
    from at[OF this] obtain h s r g b where
      "R ! i = [clamp 0 1 r, clamp 0 1 g, clamp 0 1 b]" "I ! i = [?k i]" by blast
    then show "length (I ! i) = 1 \<and> length (R ! i) = 3" by simp
  qed
  moreover have "length (map2 (\<lambda>p q. map ((*) (hd p)) q) I R) = length px"
    by (simp add: lI lR)
  moreover have "length (W ! i) = 1 \<and> 0 \<le> W ! i ! 0
      \<and> channels 2 3 (map (rgb_to_hsv env) (map2 (\<lambda>p q. map ((*) (hd p)) q) I R)) ! i =
          [?k i * clamp 0 1 (?v i)]"
    if i: "i < length px" for i
  proof -
    from at[OF i] obtain h s r g b where Wi: "W ! i = [W ! i ! 0]"
      and mx: "max r (max g b) = ?v i"
      and Ri: "R ! i = [clamp 0 1 r, clamp 0 1 g, clamp 0 1 b]" and Ii: "I ! i = [?k i]"
      and V: "0 \<le> W ! i ! 0"
      by blast
    have k: "0 \<le> ?k i" using clamp_min_pos[of "exp (L ! i ! 0)"] by simp
    have "map2 (\<lambda>p q. map ((*) (hd p)) q) I R ! i = map ((*) (hd (I ! i))) (R ! i)"
      using i lI lR by simp
    also have "\<dots> = [?k i * clamp 0 1 r, ?k i * clamp 0 1 g, ?k i * clamp 0 1 b]"
      by (simp add: Ri Ii)
    finally have Pi: "map2 (\<lambda>p q. map ((*) (hd p)) q) I R ! i
        = [?k i * clamp 0 1 r, ?k i * clamp 0 1 g, ?k i * clamp 0 1 b]" .
    from laws obtain h2 s2 where
      "rgb_to_hsv env [?k i * clamp 0 1 r, ?k i * clamp 0 1 g, ?k i * clamp 0 1 b]
        = [h2, s2, max (?k i * clamp 0 1 r) (max (?k i * clamp 0 1 g) (?k i * clamp 0 1 b))]"
      unfolding hsv_value_laws_def by blast
    then have "rgb_to_hsv env [?k i * clamp 0 1 r, ?k i * clamp 0 1 g, ?k i * clamp 0 1 b]
        = [h2, s2, ?k i * clamp 0 1 (?v i)]"
      by (simp only: max_scaled[OF k] clamp_max[symmetric] mx)
    then have "channels 2 3 (map (rgb_to_hsv env) (map2 (\<lambda>p q. map ((*) (hd p)) q) I R)) ! i
        = [?k i * clamp 0 1 (?v i)]"
      using i lI lR Pi by (simp add: channels_def)
    moreover have "length (W ! i) = 1" using Wi by (metis length_Cons list.size(3) One_nat_def)
    ultimately show ?thesis using V by simp
  qed
  ultimately show ?thesis by blast
qed

text \<open>The hexcone conversions have the properties the identity needs.\<close>

lemma hexcone_fraction:
  fixes x :: real
  shows "(x - 6 * of_int \<lfloor>x / 6\<rfloor>) - of_int (\<lfloor>x\<rfloor> mod 6) = x - of_int \<lfloor>x\<rfloor>"
proof -
  have "\<lfloor>x / real_of_int 6\<rfloor> = \<lfloor>x\<rfloor> div 6" by (rule floor_divide_real_eq_div) simp
  then have d: "\<lfloor>x / 6\<rfloor> = \<lfloor>x\<rfloor> div 6" by simp
  have "\<lfloor>x\<rfloor> = 6 * (\<lfloor>x\<rfloor> div 6) + \<lfloor>x\<rfloor> mod 6" by simp
  then have "real_of_int \<lfloor>x\<rfloor> = 6 * real_of_int (\<lfloor>x\<rfloor> div 6) + real_of_int (\<lfloor>x\<rfloor> mod 6)"
    by (metis of_int_add of_int_mult of_int_numeral)
  then show ?thesis by (simp add: d)
qed

lemma hexcone_below_value:
  fixes v s f :: real
  assumes "0 \<le> s" "0 \<le> v" "0 \<le> f" "f \<le> 1"
  shows "v * (1 - s) \<le> v" "v * (1 - f * s) \<le> v" "v * (1 - (1 - f) * s) \<le> v"
proof -
  have "0 \<le> v * s" using assms by simp
  then show "v * (1 - s) \<le> v" by (simp add: algebra_simps)
  have "0 \<le> v * (f * s)" using assms by simp
  then show "v * (1 - f * s) \<le> v" by (simp add: algebra_simps)
  have "0 \<le> v * ((1 - f) * s)" using assms by simp
  then show "v * (1 - (1 - f) * s) \<le> v" by (simp add: algebra_simps)
qed

lemma hexcone_sextant:
  fixes v p q t :: real and hi :: int
  assumes "p \<le> v" "q \<le> v" "t \<le> v"
  shows "\<exists>r g b.
           (if hi = 0 then [v, t, p]
            else if hi = 1 then [q, v, p]
            else if hi = 2 then [p, v, t]
            else if hi = 3 then [p, q, v]
            else if hi = 4 then [t, p, v]
            else [v, p, q]) = [r, g, b] \<and> max r (max g b) = v"
  using assms by (simp add: max_def)

lemma hexcone_value_laws:
  assumes "rgb_to_hsv env = hexcone_rgb_to_hsv" "hsv_to_rgb env = hexcone_hsv_to_rgb"
  shows "hsv_value_laws env"
proof -
  have fwd: "\<exists>h s. hexcone_rgb_to_hsv [r, g, b] = [h, s, max r (max g b)]
             \<and> (0 \<le> r \<and> 0 \<le> g \<and> 0 \<le> b \<longrightarrow> 0 \<le> s)" for r g b
  proof -
    have "0 \<le> r \<and> 0 \<le> g \<and> 0 \<le> b \<longrightarrow>
          0 \<le> (max r (max g b) - min r (min g b)) / (max r (max g b) + 1 / 10 ^ 8)"
    proof (intro impI)
      assume that: "0 \<le> r \<and> 0 \<le> g \<and> 0 \<le> b"
      have "0 \<le> max r (max g b) - min r (min g b)" by (simp add: max_def min_def)
      moreover have "0 \<le> max r (max g b) + 1 / 10 ^ 8" using that by (simp add: max_def)
      ultimately show "0 \<le> (max r (max g b) - min r (min g b)) / (max r (max g b) + 1 / 10 ^ 8)"
        by (rule divide_nonneg_nonneg)
    qed
    then show ?thesis unfolding hexcone_rgb_to_hsv_def Let_def list.case by simp
  qed
  have bwd: "\<exists>r g b. hexcone_hsv_to_rgb [h, s, v] = [r, g, b] \<and> max r (max g b) = v"
    if s: "0 \<le> s" and v: "0 \<le> v" for h s v
  proof -
    let ?x = "h / (2 * pi) * 6"
    let ?f = "(?x - 6 * of_int \<lfloor>?x / 6\<rfloor>) - of_int (\<lfloor>?x\<rfloor> mod 6)"
    have f: "?f = ?x - of_int \<lfloor>?x\<rfloor>" by (rule hexcone_fraction)
    have f0: "0 \<le> ?f" and f1: "?f \<le> 1" unfolding f by linarith+
    note le = hexcone_below_value[OF s v f0 f1]
    show ?thesis
      unfolding hexcone_hsv_to_rgb_def list.case Let_def
      by (rule hexcone_sextant[OF le])
  qed
  show ?thesis unfolding hsv_value_laws_def assms
  proof (intro conjI allI impI)
    fix r g b :: real
    show "\<exists>h s. hexcone_rgb_to_hsv [r, g, b] = [h, s, max r (max g b)]
             \<and> (0 \<le> r \<and> 0 \<le> g \<and> 0 \<le> b \<longrightarrow> 0 \<le> s)" by (rule fwd)
  next
    fix h s v :: real assume "0 \<le> s \<and> 0 \<le> v"
    then show "\<exists>r g b. hexcone_hsv_to_rgb [h, s, v] = [r, g, b] \<and> max r (max g b) = v"
      using bwd by blast
  qed
qed

text \<open>
  C1. \<^verbatim>\<open>get_retinex_output\<close> returns an illumination map and a reflectance map
  whose product is the working-colour-space representation of the input image (the RGB
  image, or the value channel in HSV mode), up to the epsilon added inside the logarithm
  and up to the two clamps.

  Let \<open>W\<close> be the working image of the input and \<open>L\<close> the log-illumination the network
  answers on it, of the shape of \<open>W\<close>, for non-negative pixels (of three channels in HSV
  mode, where the colour conversions satisfy \<open>hsv_value_laws\<close>). Then the decomposition
  returns, the network was given \<open>W\<close>, every illumination is at least \<open>1e-5\<close>, every
  reflectance lies in \<open>[0, 1]\<close>, the product of the two maps is defined, and its
  working-colour-space representation has the shape of \<open>W\<close> and at every entry the value
  \<open>max(1e-5, exp L) * clamp((W + eps) / exp L, 0, 1)\<close>; where neither clamp triggers
  (\<open>1e-5 \<le> exp L\<close> and \<open>W + eps \<le> exp L\<close>) this value is \<open>W + eps\<close>.
\<close>

theorem retinex_reconstruction:
  fixes env :: "('id, 'e, 't) retinex_env" and pixels :: image and hsv :: bool and ids :: 'id
    and dt :: dtype
  defines "W \<equiv> working_image env hsv pixels"
  defines "L \<equiv> log_illumination_map (retinex_net env W (retinex_embeds env ids))"
  assumes shape: "same_shape L W"
    and nonneg: "\<forall>p \<in> set pixels. \<forall>x \<in> set p. 0 \<le> x"
    and colour: "hsv \<longrightarrow> list_all (\<lambda>p. length p = 3) pixels \<and> hsv_value_laws env"
  shows "\<exists>out product.
           get_retinex_output env hsv dt ids pixels = Inr out
         \<and> input_image_for_net out = W
         \<and> (\<forall>p \<in> set (illumination_map out). \<forall>x \<in> set p. 1 / 10 ^ 5 \<le> x)
         \<and> (\<forall>p \<in> set (reflectance_map out). \<forall>x \<in> set p. 0 \<le> x \<and> x \<le> 1)
         \<and> tensor_op (*) (illumination_map out) (reflectance_map out) = Inr product
         \<and> same_shape (working_image env hsv product) W
         \<and> (\<forall>i < length W. \<forall>c < length (W ! i).
               working_image env hsv product ! i ! c =
                 clamp_min (1 / 10 ^ 5) (exp (L ! i ! c))
                   * clamp 0 1 ((W ! i ! c + finfo_eps dt) / exp (L ! i ! c))
             \<and> (1 / 10 ^ 5 \<le> exp (L ! i ! c) \<and> W ! i ! c + finfo_eps dt \<le> exp (L ! i ! c)
                  \<longrightarrow> working_image env hsv product ! i ! c = W ! i ! c + finfo_eps dt))"
proof (cases hsv)
  case False
  let ?I = "pointwise (clamp_min (1 / 10 ^ 5)) (pointwise exp L)"
  let ?R = "pointwise (clamp 0 1)
              (pointwise exp (pointwise2 (-) (pointwise (\<lambda>x. ln (x + finfo_eps dt)) pixels) L))"
  have W: "W = pixels" using False by (simp add: W_def working_image_def)
  have shape': "same_shape L pixels" using shape W by simp
  have L: "L = log_illumination_map (retinex_net env pixels (retinex_embeds env ids))"
    by (simp add: L_def W)
  note out = get_retinex_output_rgb[OF shape'[unfolded L], of dt, folded L]
  note prod = rgb_product[OF shape' nonneg finfo_eps_pos[of dt]]
  have idx: "working_image env hsv (pointwise2 (*) ?I ?R) ! i ! c =
                 clamp_min (1 / 10 ^ 5) (exp (L ! i ! c))
                   * clamp 0 1 ((W ! i ! c + finfo_eps dt) / exp (L ! i ! c))
             \<and> (1 / 10 ^ 5 \<le> exp (L ! i ! c) \<and> W ! i ! c + finfo_eps dt \<le> exp (L ! i ! c)
                  \<longrightarrow> working_image env hsv (pointwise2 (*) ?I ?R) ! i ! c = W ! i ! c + finfo_eps dt)"
    if i: "i < length W" and c: "c < length (W ! i)" for i c
  proof -
    have "pixels ! i \<in> set pixels" using i W by simp
    moreover have "pixels ! i ! c \<in> set (pixels ! i)" using c W by simp
    ultimately have "0 \<le> pixels ! i ! c" using nonneg by blast
    then have pos: "0 < W ! i ! c + finfo_eps dt"
      using finfo_eps_pos[of dt] W by simp
    have e: "working_image env hsv (pointwise2 (*) ?I ?R) ! i ! c =
                 clamp_min (1 / 10 ^ 5) (exp (L ! i ! c))
                   * clamp 0 1 ((W ! i ! c + finfo_eps dt) / exp (L ! i ! c))"
      using prod(3) i c False unfolding W working_image_def by simp
    show ?thesis using e no_clamp_product[OF pos] by simp
  qed
  let ?out = "\<lparr>input_image_for_net = pixels, illumination_map = ?I, reflectance_map = ?R,
            out_alpha = alpha (retinex_net env pixels (retinex_embeds env ids)),
            out_beta = beta (retinex_net env pixels (retinex_embeds env ids)),
            out_local_exposure = local_exposure (retinex_net env pixels (retinex_embeds env ids)),
            out_weights = weights (retinex_net env pixels (retinex_embeds env ids))\<rparr>"
  let ?P = "pointwise2 (*) ?I ?R"
  have c1: "get_retinex_output env hsv dt ids pixels = Inr ?out" using out False by simp
  have c2: "input_image_for_net ?out = W" by (simp add: W)
  have c3: "\<forall>p \<in> set (illumination_map ?out). \<forall>x \<in> set p. 1 / 10 ^ 5 \<le> x"
    using pointwise_floor_bound[of "1 / 10 ^ 5" "pointwise exp L"] by simp
  have c4: "\<forall>p \<in> set (reflectance_map ?out). \<forall>x \<in> set p. 0 \<le> x \<and> x \<le> 1"
    using pointwise_clamp_bounds[of "pointwise exp (pointwise2 (-) (pointwise (\<lambda>x. ln (x + finfo_eps dt)) pixels) L)"]
    by simp
  have c5: "tensor_op (*) (illumination_map ?out) (reflectance_map ?out) = Inr ?P"
    using prod(1) by simp
  have c6: "same_shape (working_image env hsv ?P) W"
    using prod(2) False by (simp add: working_image_def W)
  have c7: "\<forall>i < length W. \<forall>c < length (W ! i).
               working_image env hsv ?P ! i ! c =
                 clamp_min (1 / 10 ^ 5) (exp (L ! i ! c))
                   * clamp 0 1 ((W ! i ! c + finfo_eps dt) / exp (L ! i ! c))
             \<and> (1 / 10 ^ 5 \<le> exp (L ! i ! c) \<and> W ! i ! c + finfo_eps dt \<le> exp (L ! i ! c)
                  \<longrightarrow> working_image env hsv ?P ! i ! c = W ! i ! c + finfo_eps dt)"
    using idx by blast
  show ?thesis
    apply (rule exI[of _ ?out], rule exI[of _ ?P])
    using c1 c2 c3 c4 c5 c6 c7 by (intro conjI)
next
  case True
  let ?H = "map (rgb_to_hsv env) pixels"
  let ?I = "pointwise (clamp_min (1 / 10 ^ 5)) (pointwise exp L)"
  let ?R = "pointwise (clamp 0 1)
              (map (hsv_to_rgb env)
                 (map (\<lambda>(x, y, z). x @ y @ z)
                    (zip (channels 0 1 ?H)
                       (zip (channels 1 2 ?H)
                          (pointwise exp
                             (pointwise2 (-) (pointwise (\<lambda>x. ln (x + finfo_eps dt)) (channels 2 3 ?H)) L))))))"
  from colour True have three: "list_all (\<lambda>p. length p = 3) pixels" and laws: "hsv_value_laws env"
    by simp_all
  have W: "W = channels 2 3 ?H" using True by (simp add: W_def working_image_def)
  have shape': "same_shape L (channels 2 3 ?H)" using shape W by simp
  have L: "L = log_illumination_map (retinex_net env (channels 2 3 ?H) (retinex_embeds env ids))"
    by (simp add: L_def W)
  note out = get_retinex_output_hsv[OF three hsv_three[OF three laws] shape'[unfolded L], of dt, folded L]
  from hsv_product[OF three laws nonneg finfo_eps_pos[of dt] shape' refl]
  obtain product where tp: "tensor_op (*) ?I ?R = Inr product"
    and lp: "length product = length pixels"
    and at: "\<And>i. i < length pixels \<Longrightarrow>
                 length (channels 2 3 ?H ! i) = 1 \<and> 0 \<le> channels 2 3 ?H ! i ! 0
               \<and> channels 2 3 (map (rgb_to_hsv env) product) ! i =
                   [clamp_min (1 / 10 ^ 5) (exp (L ! i ! 0))
                      * clamp 0 1 ((channels 2 3 ?H ! i ! 0 + finfo_eps dt) / exp (L ! i ! 0))]"
    by blast
  have wp: "working_image env hsv product = channels 2 3 (map (rgb_to_hsv env) product)"
    using True by (simp add: working_image_def)
  have lW: "length W = length pixels" by (simp add: W channels_def)
  have ss: "same_shape (working_image env hsv product) W"
    unfolding same_shape_def
  proof (rule nth_equalityI)
    show "length (map length (working_image env hsv product)) = length (map length W)"
      by (simp add: wp lW lp channels_def)
    fix i assume "i < length (map length (working_image env hsv product))"
    then have i: "i < length pixels" by (simp add: wp lp channels_def)
    have "length (working_image env hsv product ! i) = 1" using at[OF i] by (simp add: wp)
    moreover have "length (W ! i) = 1" using at[OF i] by (simp add: W)
    ultimately show "map length (working_image env hsv product) ! i = map length W ! i"
      using i lW lp by (simp add: wp channels_def)
  qed
  have idx: "working_image env hsv product ! i ! c =
                 clamp_min (1 / 10 ^ 5) (exp (L ! i ! c))
                   * clamp 0 1 ((W ! i ! c + finfo_eps dt) / exp (L ! i ! c))
             \<and> (1 / 10 ^ 5 \<le> exp (L ! i ! c) \<and> W ! i ! c + finfo_eps dt \<le> exp (L ! i ! c)
                  \<longrightarrow> working_image env hsv product ! i ! c = W ! i ! c + finfo_eps dt)"
    if i: "i < length W" and c: "c < length (W ! i)" for i c
  proof -
    have i': "i < length pixels" using i lW by simp
    have c0: "c = 0" using at[OF i'] c by (simp add: W)
    have pos: "0 < W ! i ! c + finfo_eps dt"
      using at[OF i'] finfo_eps_pos[of dt] by (simp add: W c0)
    have e: "working_image env hsv product ! i ! c =
                 clamp_min (1 / 10 ^ 5) (exp (L ! i ! c))
                   * clamp 0 1 ((W ! i ! c + finfo_eps dt) / exp (L ! i ! c))"
      using at[OF i'] by (simp add: wp W c0)
    show ?thesis using e no_clamp_product[OF pos] by simp
  qed
  let ?out = "\<lparr>input_image_for_net = channels 2 3 ?H, illumination_map = ?I, reflectance_map = ?R,
            out_alpha = alpha (retinex_net env (channels 2 3 ?H) (retinex_embeds env ids)),
            out_beta = beta (retinex_net env (channels 2 3 ?H) (retinex_embeds env ids)),
            out_local_exposure = local_exposure (retinex_net env (channels 2 3 ?H) (retinex_embeds env ids)),
            out_weights = weights (retinex_net env (channels 2 3 ?H) (retinex_embeds env ids))\<rparr>"
  have c1: "get_retinex_output env hsv dt ids pixels = Inr ?out" using out True by simp
  have c2: "input_image_for_net ?out = W" by (simp add: W)
  have c3: "\<forall>p \<in> set (illumination_map ?out). \<forall>x \<in> set p. 1 / 10 ^ 5 \<le> x"
    using pointwise_floor_bound[of "1 / 10 ^ 5" "pointwise exp L"] by simp
  have "\<forall>p \<in> set ?R. \<forall>x \<in> set p. 0 \<le> x \<and> x \<le> 1"
    by (rule pointwise_clamp_bounds)
  then have c4: "\<forall>p \<in> set (reflectance_map ?out). \<forall>x \<in> set p. 0 \<le> x \<and> x \<le> 1"
    by simp
  have c5: "tensor_op (*) (illumination_map ?out) (reflectance_map ?out) = Inr product"
    using tp by simp
  have c7: "\<forall>i < length W. \<forall>c < length (W ! i).
               working_image env hsv product ! i ! c =
                 clamp_min (1 / 10 ^ 5) (exp (L ! i ! c))
                   * clamp 0 1 ((W ! i ! c + finfo_eps dt) / exp (L ! i ! c))
             \<and> (1 / 10 ^ 5 \<le> exp (L ! i ! c) \<and> W ! i ! c + finfo_eps dt \<le> exp (L ! i ! c)
                  \<longrightarrow> working_image env hsv product ! i ! c = W ! i ! c + finfo_eps dt)"
    using idx by blast
  show ?thesis
    apply (rule exI[of _ ?out], rule exI[of _ product])
    using c1 c2 c3 c4 c5 ss c7 by (intro conjI)
qed

text \<open>
  The theorem at a coloured pixel in HSV mode, with illumination \<open>2\<close>: the value of the
  pixel is \<open>1/2\<close>, and the product of the two maps has the value \<open>1/2 + eps\<close>.
\<close>

theorem retinex_reconstruction_witness:
  "\<exists>out product.
     get_retinex_output double_illumination_env True Float32 () [[1 / 2, 1 / 4, 1 / 4]] = Inr out
   \<and> tensor_op (*) (illumination_map out) (reflectance_map out) = Inr product
   \<and> working_image double_illumination_env True [[1 / 2, 1 / 4, 1 / 4]] = [[1 / 2]]
   \<and> working_image double_illumination_env True product ! 0 ! 0 = 1 / 2 + 1 / 2 ^ 23"
proof -
  let ?env = "double_illumination_env"
  let ?px = "[[1 / 2, 1 / 4, 1 / 4]] :: image"
  have laws: "hsv_value_laws ?env"
    by (rule hexcone_value_laws) (simp_all add: double_illumination_env_def)
  have W: "working_image ?env True ?px = [[1 / 2]]"
    by (simp add: working_image_def channels_def double_illumination_env_def
        hexcone_rgb_to_hsv_def Let_def)
  have L: "log_illumination_map (retinex_net ?env [[1 / 2]] (retinex_embeds ?env ())) = [[ln 2]]"
    by (simp add: double_illumination_env_def pointwise_def)
  have shape: "same_shape
      (log_illumination_map (retinex_net ?env (working_image ?env True ?px) (retinex_embeds ?env ())))
      (working_image ?env True ?px)"
    unfolding W L by (simp add: same_shape_def)
  have nonneg: "\<forall>p \<in> set ?px. \<forall>x \<in> set p. (0::real) \<le> x" by simp
  have colour: "True \<longrightarrow> list_all (\<lambda>p. length p = 3) ?px \<and> hsv_value_laws ?env"
    using laws by simp
  from retinex_reconstruction[where env = ?env and hsv = True and ids = "()" and pixels = ?px
      and dt = Float32, OF shape nonneg colour]
  obtain out product where
    out: "get_retinex_output ?env True Float32 () ?px = Inr out"
    and prod: "tensor_op (*) (illumination_map out) (reflectance_map out) = Inr product"
    and idx: "\<forall>i < length (working_image ?env True ?px). \<forall>c < length (working_image ?env True ?px ! i).
        (1 / 10 ^ 5 \<le> exp (log_illumination_map (retinex_net ?env (working_image ?env True ?px)
                                 (retinex_embeds ?env ())) ! i ! c)
         \<and> working_image ?env True ?px ! i ! c + finfo_eps Float32
             \<le> exp (log_illumination_map (retinex_net ?env (working_image ?env True ?px)
                                 (retinex_embeds ?env ())) ! i ! c)
         \<longrightarrow> working_image ?env True product ! i ! c
               = working_image ?env True ?px ! i ! c + finfo_eps Float32)"
    by blast
  have "working_image ?env True product ! 0 ! 0 = 1 / 2 + 1 / 2 ^ 23"
    using idx unfolding W L by simp
  with out prod W show ?thesis by blast
qed

end
